theory Spec2Isabelle
  imports Main "HOL-Library.AList" "HOL-Library.Sublist"
begin

section \<open>Exceptions\<close>

text \<open>
  Every exception the modelled Python can raise is a value of \<open>exn\<close>.  The
  constructors up to \<open>OSError\<close> are the \<open>OSError\<close> family of Python
  (\<open>OSError\<close> itself carries its message, e.g. ``Directory not empty'');
  \<open>CsvError\<close> is \<open>csv.Error\<close>;
  \<open>PluginError\<close> stands for whatever a per-source plug-in or an external
  collaborator (network, database) raises.
\<close>

datatype exn =
    FileNotFoundError
  | IsADirectoryError
  | NotADirectoryError
  | FileExistsError
  | OSError string
  | ValueError
  | KeyError
  | TypeError
  | ArgumentTypeError string
  | SystemExit nat
  | CsvError
  | PluginError string

fun is_OSError :: "exn \<Rightarrow> bool" where
  "is_OSError FileNotFoundError = True"
| "is_OSError IsADirectoryError = True"
| "is_OSError NotADirectoryError = True"
| "is_OSError FileExistsError = True"
| "is_OSError (OSError m) = True"
| "is_OSError e = False"

section \<open>Paths (pathlib, POSIX flavour)\<close>

text \<open>
  A \<open>Path\<close> is modelled by its \<open>parts\<close> tuple: the root (\<open>/\<close> or \<open>//\<close>)
  first when the path is absolute, then the components.  Building a path from a
  string drops empty components and \<open>.\<close> components; \<open>..\<close> is kept, as
  pathlib keeps it.
\<close>

type_synonym path = "string list"

fun split_slash :: "string \<Rightarrow> string list" where
  "split_slash [] = [[]]"
| "split_slash (c # cs) =
     (if c = CHR ''/'' then [] # split_slash cs
      else (case split_slash cs of
              [] \<Rightarrow> [[c]]
            | w # ws \<Rightarrow> (c # w) # ws))"

definition path_root :: "string \<Rightarrow> string" where
  "path_root s =
     (if take 2 s = ''//'' \<and> take 3 s \<noteq> ''///'' then ''//''
      else if take 1 s = ''/'' then ''/''
      else [])"

definition Path :: "string \<Rightarrow> path" where
  "Path s =
     (if path_root s = [] then [] else [path_root s])
     @ filter (\<lambda>c. c \<noteq> [] \<and> c \<noteq> ''.'') (split_slash s)"

definition is_absolute :: "path \<Rightarrow> bool" where
  "is_absolute p = (case p of [] \<Rightarrow> False | r # _ \<Rightarrow> r = ''/'' \<or> r = ''//'')"

text \<open>The \<open>/\<close> operator of pathlib: an absolute right operand replaces the left one.\<close>

definition pjoin :: "path \<Rightarrow> string \<Rightarrow> path" where
  "pjoin p s = (if is_absolute (Path s) then Path s else p @ Path s)"

fun intercalate :: "string \<Rightarrow> string list \<Rightarrow> string" where
  "intercalate sep [] = []"
| "intercalate sep [x] = x"
| "intercalate sep (x # y # ys) = x @ sep @ intercalate sep (y # ys)"

definition path_str :: "path \<Rightarrow> string" where
  "path_str p =
     (case p of
        [] \<Rightarrow> ''.''
      | r # cs \<Rightarrow> if is_absolute p then r @ intercalate ''/'' cs
                 else intercalate ''/'' p)"

section \<open>Run dates\<close>

text \<open>
  The three fields of a \<open>datetime.date\<close>.  The record does not bound them; the
  dates Python can hold are those of \<open>valid_date\<close> below, and a property that
  depends on the range assumes it.
\<close>

record date =
  year :: nat
  month :: nat
  day :: nat

definition digit_char :: "nat \<Rightarrow> char" where
  "digit_char n = ''0123456789'' ! (n mod 10)"

text \<open>The decimal numeral of a number, without padding.\<close>

fun dec :: "nat \<Rightarrow> string" where
  "dec n = (if n < 10 then [digit_char n] else dec (n div 10) @ [digit_char n])"

declare dec.simps [simp del]

definition pad2 :: "nat \<Rightarrow> string" where
  "pad2 n = (if n < 10 then CHR ''0'' # dec n else dec n)"

text \<open>
  \<open>strftime('%Y-%m-%d')\<close> and \<open>strftime('%Y%m%d')\<close> as the C library of Linux
  formats a date: \<open>%Y\<close> is the year in decimal without padding (year 999 gives
  \<open>999\<close>), \<open>%m\<close> and \<open>%d\<close> are two digits.
\<close>

definition strftime_iso :: "date \<Rightarrow> string" where
  "strftime_iso d = dec (year d) @ ''-'' @ pad2 (month d) @ ''-'' @ pad2 (day d)"

definition strftime_compact :: "date \<Rightarrow> string" where
  "strftime_compact d = dec (year d) @ pad2 (month d) @ pad2 (day d)"

section \<open>Configuration\<close>

text \<open>The values the code reads from the \<open>config\<close> module.\<close>

record config =
  ETL_DATA_HOME :: string
  ETL_S3_BUCKET :: string
  FETCH_DATA_FROM_SOURCE :: bool
  SFTP_PATH_SERVER :: string
  SFTP_USER_SERVER :: string
  SFTP_NAME_SERVER :: string

section \<open>The local file system\<close>

text \<open>
  The staging area is a finite table from paths to nodes.  The root directory
  and the current directory (the empty relative path) always exist.  The model
  has no symbolic links and no permissions; the error of an operation is the one
  Linux reports for the same table.  A \<open>..\<close> component is not resolved: the
  kernel would walk to the parent, the table treats it as a name, so the model
  speaks for paths and tables without \<open>..\<close> only, and the properties that
  depend on it say so.
\<close>

datatype node = File string | Dir

type_synonym fs = "(path \<times> node) list"

definition is_dir :: "fs \<Rightarrow> path \<Rightarrow> bool" where
  "is_dir t p = (p = [] \<or> (is_absolute p \<and> length p = 1) \<or> map_of t p = Some Dir)"

definition is_file :: "fs \<Rightarrow> path \<Rightarrow> bool" where
  "is_file t p = (\<not> is_dir t p \<and> (case map_of t p of Some (File c) \<Rightarrow> True | _ \<Rightarrow> False))"

text \<open>The proper ancestors of a path, outermost first.\<close>

definition ancestors :: "path \<Rightarrow> path list" where
  "ancestors p = map (\<lambda>n. take n p) [1..<length p]"

text \<open>Path resolution: the first ancestor that is not a directory decides the error.\<close>

fun check_dirs :: "fs \<Rightarrow> path list \<Rightarrow> exn option" where
  "check_dirs t [] = None"
| "check_dirs t (q # qs) =
     (if is_dir t q then check_dirs t qs
      else if is_file t q then Some NotADirectoryError
      else Some FileNotFoundError)"

text \<open>
  \<open>Path.mkdir(parents=True, exist_ok=True)\<close>: every missing directory on the
  way is created; a regular file on the way is \<open>NotADirectoryError\<close>, a regular
  file at the path itself is \<open>FileExistsError\<close>.
\<close>

fun mkdir_chain :: "fs \<Rightarrow> path list \<Rightarrow> path \<Rightarrow> exn + fs" where
  "mkdir_chain t [] p =
     (if is_dir t p then Inr t
      else if is_file t p then Inl FileExistsError
      else Inr (AList.update p Dir t))"
| "mkdir_chain t (q # qs) p =
     (if is_dir t q then mkdir_chain t qs p
      else if is_file t q then Inl NotADirectoryError
      else mkdir_chain (AList.update q Dir t) qs p)"

definition mkdir_parents :: "fs \<Rightarrow> path \<Rightarrow> exn + fs" where
  "mkdir_parents t p = mkdir_chain t (ancestors p) p"

text \<open>\<open>open\<close> in a writing mode (\<open>w\<close>, \<open>w+\<close>, \<open>wb\<close>): creates or truncates.\<close>

definition open_write :: "fs \<Rightarrow> path \<Rightarrow> exn + fs" where
  "open_write t p =
     (case check_dirs t (ancestors p) of
        Some e \<Rightarrow> Inl e
      | None \<Rightarrow> if is_dir t p then Inl IsADirectoryError
               else Inr (AList.update p (File []) t))"

definition write_file :: "fs \<Rightarrow> path \<Rightarrow> string \<Rightarrow> fs" where
  "write_file t p c = AList.update p (File c) t"

definition unlink :: "fs \<Rightarrow> path \<Rightarrow> exn + fs" where
  "unlink t p =
     (case check_dirs t (ancestors p) of
        Some e \<Rightarrow> Inl e
      | None \<Rightarrow> if is_dir t p then Inl IsADirectoryError
               else if is_file t p then Inr (AList.delete p t)
               else Inl FileNotFoundError)"

definition has_children :: "fs \<Rightarrow> path \<Rightarrow> bool" where
  "has_children t p = (\<exists>q \<in> set (map fst t). q \<noteq> [] \<and> q \<noteq> p \<and> butlast q = p)"

definition rmdir :: "fs \<Rightarrow> path \<Rightarrow> exn + fs" where
  "rmdir t p =
     (case check_dirs t (ancestors p) of
        Some e \<Rightarrow> Inl e
      | None \<Rightarrow> if is_file t p then Inl NotADirectoryError
               else if \<not> is_dir t p then Inl FileNotFoundError
               else if p = [] then Inl (OSError ''Invalid argument'')
               else if is_absolute p \<and> length p = 1
                 then Inl (OSError ''Device or resource busy'')
               else if has_children t p then Inl (OSError ''Directory not empty'')
               else Inr (AList.delete p t))"

section \<open>The world a run acts on\<close>

text \<open>
  \<open>trace\<close> records, in order, every logging call, every \<open>print\<close> and every
  call of a primitive that touches the file system, the archive or the database.
  \<open>ParserExit prog e\<close> is the message the argument parser with program name
  \<open>prog\<close> prints when it exits with \<open>e\<close>.
  \<open>s3_fault\<close> is the state of the archive service: when it is \<open>Some e\<close>,
  every transfer raises \<open>e\<close> and moves nothing.
\<close>

datatype event =
    LogInfo string
  | LogExn exn
  | Print string
  | PrintExn exn
  | S3Client
  | EvMkdir path
  | EvOpen path
  | EvUnlink path
  | EvRmdir path
  | EvS3Put path string
  | EvS3Get string path
  | EvSshOpen
  | EvSshClose
  | EvDbConnect
  | EvDbCommit
  | EvExecDdl "string list"
  | EvCsvToTable string
  | LoggingConfigured
  | ParserExit "string list" exn

record world =
  files :: fs
  s3 :: "(string \<times> string) list"
  s3_fault :: "exn option"
  db_ddl :: "string list"
  db_pending :: "(string \<times> string) list"
  db_committed :: "(string \<times> string) list list"
  trace :: "event list"

type_synonym action = "world \<Rightarrow> exn option \<times> world"

definition emit :: "event \<Rightarrow> world \<Rightarrow> world" where
  "emit e w = w\<lparr>trace := trace w @ [e]\<rparr>"

definition log_info :: "string \<Rightarrow> action" where
  "log_info msg w = (None, emit (LogInfo msg) w)"

definition print :: "string \<Rightarrow> action" where
  "print msg w = (None, emit (Print msg) w)"

text \<open>Statements in sequence: the first exception ends the sequence.\<close>

fun run_all :: "action list \<Rightarrow> action" where
  "run_all [] w = (None, w)"
| "run_all (a # as) w =
     (case a w of
        (None, w') \<Rightarrow> run_all as w'
      | (Some e, w') \<Rightarrow> (Some e, w'))"

definition fs_action :: "event \<Rightarrow> (fs \<Rightarrow> exn + fs) \<Rightarrow> action" where
  "fs_action ev f w =
     (case f (files w) of
        Inl e \<Rightarrow> (Some e, emit ev w)
      | Inr t \<Rightarrow> (None, (emit ev w)\<lparr>files := t\<rparr>))"

definition do_mkdir :: "path \<Rightarrow> action" where
  "do_mkdir p = fs_action (EvMkdir p) (\<lambda>t. mkdir_parents t p)"

definition do_open :: "path \<Rightarrow> action" where
  "do_open p = fs_action (EvOpen p) (\<lambda>t. open_write t p)"

definition do_write :: "path \<Rightarrow> string \<Rightarrow> action" where
  "do_write p c w = (None, w\<lparr>files := write_file (files w) p c\<rparr>)"

definition do_unlink :: "path \<Rightarrow> action" where
  "do_unlink p = fs_action (EvUnlink p) (\<lambda>t. unlink t p)"

definition do_rmdir :: "path \<Rightarrow> action" where
  "do_rmdir p = fs_action (EvRmdir p) (\<lambda>t. rmdir t p)"

text \<open>
  Collaborators outside the sources, taken as parameters: the row serialisation of
  the \<open>csv\<close> module, the encoding of a text-mode file, the two commands of
  \<open>pymodules.command\<close>, and the key under which the archive client stores what
  \<open>put(lpath, rpath)\<close> uploads.  The code hands \<open>put\<close> a \<open>pathlib.Path\<close> as
  \<open>lpath\<close>: s3fs 0.4.2 stores the object at \<open>rpath\<close>, while s3fs on a current
  fsspec places a source that is not a string under the target, at \<open>rpath\<close>
  followed by the name of the file.
\<close>

record env =
  csv_writerows :: "string list list \<Rightarrow> string"
  encode_text :: "string \<Rightarrow> string"
  ssh_get_file :: "string \<Rightarrow> path \<Rightarrow> action"
  local_cmd :: "string \<Rightarrow> action"
  s3_put_key :: "path \<Rightarrow> string \<Rightarrow> string"

subsection \<open>The archive client (s3fs)\<close>

text \<open>
  The archive is a table from keys to contents.  \<open>put\<close> copies the content of
  a local regular file to the key that the client derives from the call, \<open>get\<close>
  copies the content at a key to a local file, which it creates or truncates.  A
  transfer either raises (the fault of the service, or the error of the local
  file access) and moves nothing, or is complete.
\<close>

definition s3_put :: "env \<Rightarrow> path \<Rightarrow> string \<Rightarrow> action" where
  "s3_put ev lpath rpath w =
     (let w1 = emit (EvS3Put lpath rpath) w in
      case s3_fault w of
        Some e \<Rightarrow> (Some e, w1)
      | None \<Rightarrow>
         (case check_dirs (files w) (ancestors lpath) of
            Some e \<Rightarrow> (Some e, w1)
          | None \<Rightarrow>
             if is_dir (files w) lpath then (Some IsADirectoryError, w1)
             else (case map_of (files w) lpath of
                     Some (File c) \<Rightarrow>
                       (None, w1\<lparr>s3 := AList.update (s3_put_key ev lpath rpath) c (s3 w)\<rparr>)
                   | _ \<Rightarrow> (Some FileNotFoundError, w1))))"

definition s3_get :: "string \<Rightarrow> path \<Rightarrow> action" where
  "s3_get rpath lpath w =
     (let w1 = emit (EvS3Get rpath lpath) w in
      case s3_fault w of
        Some e \<Rightarrow> (Some e, w1)
      | None \<Rightarrow>
         (case map_of (s3 w) rpath of
            None \<Rightarrow> (Some FileNotFoundError, w1)
          | Some c \<Rightarrow>
             (case open_write (files w) lpath of
                Inl e \<Rightarrow> (Some e, w1)
              | Inr t \<Rightarrow> (None, w1\<lparr>files := write_file t lpath c\<rparr>))))"

subsection \<open>The database session\<close>

text \<open>
  Modelled from the spec: \<open>pymodules.dbwrapper.PostgresqlWrapper\<close> is not part
  of the sources.  The spec describes a session that is opened, used for the
  schema and copy steps, and explicitly committed.  Of the two kinds of work it
  says: inserted rows become visible by the commit (section 4.5: the post-copy
  commit is required for the inserted rows to become visible; an insert
  transaction that is never committed shows no partial data), and the schema
  statements take effect when they are executed (section 7: after a copy that
  fails the table is empty, the truncate having already run).
  \<open>db_ddl\<close> holds the schema statements in effect, in the order of their
  execution; \<open>db_pending\<close> the rows, as pairs of table name and data, that the
  open transaction of the current session inserted; \<open>db_committed\<close> the
  committed transactions, oldest first.
\<close>

definition db_connect :: action where
  "db_connect w = (None, emit EvDbConnect (w\<lparr>db_pending := []\<rparr>))"

definition db_commit :: action where
  "db_commit w =
     (None, emit EvDbCommit
              (w\<lparr>db_committed := db_committed w @ [db_pending w], db_pending := []\<rparr>))"

definition execddl :: "string list \<Rightarrow> action" where
  "execddl stmts w = (None, emit (EvExecDdl stmts) (w\<lparr>db_ddl := db_ddl w @ stmts\<rparr>))"

definition csv_to_table :: "string \<Rightarrow> string \<Rightarrow> action" where
  "csv_to_table tablename content w =
     (None, emit (EvCsvToTable tablename)
              (w\<lparr>db_pending := db_pending w @ [(tablename, content)]\<rparr>))"

section \<open>The processor\<close>

record processor =
  run_date :: date
  run_date_string :: string
  run_date_YYYYMMDD :: string
  local_folder :: path
  file_path :: path
  s3_path :: string
  api_return_type :: string
  sftp_path :: string
  sftp_path_server :: string
  sftp_user_server :: string
  sftp_name_server :: string

text \<open>A value that \<open>fetch_from_api\<close> may return; \<open>POther\<close> is any value that is
  neither bytes, nor text, nor a sequence of rows (\<open>None\<close>, for one).\<close>

datatype payload = PBytes string | PText string | PRows "string list list" | POther

text \<open>
  The methods a source overrides.  \<open>fetch_names\<close> is \<open>fetch_from_api\<close> as the
  multi-file variant uses it: the sequence of the formatted elements of the value
  it returns.
\<close>

record plugin =
  fetch_from_api :: "processor \<Rightarrow> world \<Rightarrow> (exn + payload) \<times> world"
  fetch_names :: "processor \<Rightarrow> world \<Rightarrow> (exn + string list) \<times> world"
  check_inserted_files :: "processor \<Rightarrow> action"
  pre_copy_transform :: "processor \<Rightarrow> action"
  pre_copy_sql :: "processor \<Rightarrow> action"
  copy_to_db :: "processor \<Rightarrow> action"

text \<open>\<open>if filename:\<close> takes the first branch for a non-empty string only;
  \<open>truthy\<close> returns the name in that case.\<close>

definition truthy :: "string option \<Rightarrow> string option" where
  "truthy f = (case f of None \<Rightarrow> None | Some s \<Rightarrow> if s = [] then None else Some s)"

definition fmt_opt :: "string option \<Rightarrow> string" where
  "fmt_opt f = (case f of None \<Rightarrow> ''None'' | Some s \<Rightarrow> s)"

definition init :: "config \<Rightarrow> date \<Rightarrow> string \<Rightarrow> string option \<Rightarrow> string \<Rightarrow> world
                    \<Rightarrow> processor \<times> world" where
  "init cfg rd source_system filename art w =
     (let ymd = strftime_compact rd;
          folder = pjoin (pjoin (Path (ETL_DATA_HOME cfg)) source_system) ymd
      in (\<lparr> run_date = rd,
            run_date_string = strftime_iso rd,
            run_date_YYYYMMDD = ymd,
            local_folder = folder,
            file_path = (case truthy filename of
                           Some f \<Rightarrow> pjoin folder f
                         | None \<Rightarrow> folder),
            s3_path = (case truthy filename of
                         Some f \<Rightarrow> ETL_S3_BUCKET cfg @ ''/'' @ source_system @ ''/'' @ ymd
                                   @ ''/'' @ f
                       | None \<Rightarrow> ETL_S3_BUCKET cfg @ ''/'' @ source_system @ ''/'' @ ymd),
            api_return_type = art,
            sftp_path = ETL_DATA_HOME cfg @ ''/'' @ fmt_opt filename,
            sftp_path_server = SFTP_PATH_SERVER cfg,
            sftp_user_server = SFTP_USER_SERVER cfg,
            sftp_name_server = SFTP_NAME_SERVER cfg \<rparr>,
          emit S3Client w))"

subsection \<open>Cleanup\<close>

definition rmdir_if_empty :: "path \<Rightarrow> action" where
  "rmdir_if_empty p w =
     (case do_rmdir p (emit (LogInfo (''Attempting removal of directory '' @ path_str p)) w) of
        (None, w') \<Rightarrow> (None, w')
      | (Some e, w') \<Rightarrow> if is_OSError e then (None, emit (LogExn e) w') else (Some e, w'))"

definition cleanup :: "processor \<Rightarrow> action" where
  "cleanup self w =
     (case do_unlink (file_path self)
             (emit (LogInfo (''deleting '' @ path_str (file_path self))) w) of
        (None, w') \<Rightarrow> rmdir_if_empty (local_folder self) w'
      | (Some e, w') \<Rightarrow>
          if e = FileNotFoundError \<or> e = IsADirectoryError
          then rmdir_if_empty (local_folder self)
                 (emit (Print ''folder is not empty'') (emit (PrintExn e) w'))
          else (Some e, w'))"

subsection \<open>Fetch phase\<close>

definition put_to_s3 :: "env \<Rightarrow> processor \<Rightarrow> path \<Rightarrow> string \<Rightarrow> action" where
  "put_to_s3 ev self fp sp =
     run_all [log_info (''copying '' @ path_str fp @ '' to '' @ sp),
              s3_put ev fp sp,
              cleanup self]"

definition bool_str :: "bool \<Rightarrow> string" where
  "bool_str b = (if b then ''True'' else ''False'')"

definition skip_fetch :: "config \<Rightarrow> processor \<Rightarrow> action" where
  "skip_fetch cfg self =
     run_all [log_info (''copying all files from '' @ path_str (local_folder self)
                        @ '' to '' @ s3_path self),
              print (''FETCH_DATA_FROM_SOURCE is set to ''
                     @ bool_str (FETCH_DATA_FROM_SOURCE cfg) @ '' returning for fetch'')]"

text \<open>Calling the fetch hook and handing its value to the rest of the statement.\<close>

definition with_fetch :: "plugin \<Rightarrow> processor \<Rightarrow> (payload \<Rightarrow> action) \<Rightarrow> action" where
  "with_fetch pl self k w =
     (case fetch_from_api pl self w of
        (Inl e, w') \<Rightarrow> (Some e, w')
      | (Inr v, w') \<Rightarrow> k v w')"

definition raise :: "exn \<Rightarrow> action" where
  "raise e w = (Some e, w)"

text \<open>\<open>csv.writer(f).writerows(iter(v))\<close>: a text is a sequence of one-character
  rows; the elements of a non-empty bytes value are integers, which are no rows.\<close>

definition write_rows :: "env \<Rightarrow> path \<Rightarrow> payload \<Rightarrow> action" where
  "write_rows ev fp v =
     (case v of
        PRows rs \<Rightarrow> do_write fp (encode_text ev (csv_writerows ev rs))
      | PText t \<Rightarrow> do_write fp (encode_text ev (csv_writerows ev (map (\<lambda>c. [[c]]) t)))
      | PBytes b \<Rightarrow> if b = [] then do_write fp [] else raise CsvError
      | POther \<Rightarrow> raise TypeError)"

definition write_text :: "env \<Rightarrow> path \<Rightarrow> payload \<Rightarrow> action" where
  "write_text ev fp v =
     (case v of PText t \<Rightarrow> do_write fp (encode_text ev t) | _ \<Rightarrow> raise TypeError)"

definition write_bytes :: "path \<Rightarrow> payload \<Rightarrow> action" where
  "write_bytes fp v = (case v of PBytes b \<Rightarrow> do_write fp b | _ \<Rightarrow> raise TypeError)"

definition fetch_and_archive_to_s3 :: "config \<Rightarrow> env \<Rightarrow> plugin \<Rightarrow> processor \<Rightarrow> action" where
  "fetch_and_archive_to_s3 cfg ev pl self =
     (if \<not> FETCH_DATA_FROM_SOURCE cfg then skip_fetch cfg self
      else run_all
        [do_mkdir (local_folder self),
         log_info (''writing locally to '' @ path_str (file_path self)),
         (if api_return_type self = ''generator'' then
            with_fetch pl self (\<lambda>v.
              if v = POther then raise TypeError
              else run_all [do_open (file_path self),
                            write_rows ev (file_path self) v,
                            put_to_s3 ev self (file_path self) (s3_path self)])
          else if api_return_type self = ''list'' then
            run_all [do_open (file_path self),
                     with_fetch pl self (write_text ev (file_path self)),
                     put_to_s3 ev self (file_path self) (s3_path self)]
          else
            run_all [do_open (file_path self),
                     with_fetch pl self (write_bytes (file_path self)),
                     put_to_s3 ev self (file_path self) (s3_path self)])])"

subsection \<open>Fetch phase, multi-file variant\<close>

text \<open>
  Modelled from the spec: \<open>pymodules.command.SSHConnection\<close> is not part of the
  sources.  The spec makes the session a scoped resource, released on every exit
  path; \<open>EvSshOpen\<close> and \<open>EvSshClose\<close> bracket the body.
\<close>

definition with_ssh :: "action \<Rightarrow> action" where
  "with_ssh body w = (case body (emit EvSshOpen w) of (r, w') \<Rightarrow> (r, emit EvSshClose w'))"

definition get_listed_files :: "env \<Rightarrow> plugin \<Rightarrow> processor \<Rightarrow> action" where
  "get_listed_files ev pl self w =
     (case fetch_names pl self w of
        (Inl e, w') \<Rightarrow> (Some e, w')
      | (Inr ns, w') \<Rightarrow>
          run_all (concat (map (\<lambda>n.
              [log_info (''copying files to '' @ path_str (local_folder self)
                         @ '' \<newline> from '' @ sftp_path_server self @ n),
               ssh_get_file ev (sftp_path_server self @ n) (local_folder self)]) ns)) w')"

text \<open>\<open>glob('**/*')\<close>: every entry below the folder, at any depth.\<close>

definition descendants :: "fs \<Rightarrow> path \<Rightarrow> path list" where
  "descendants t p = filter (\<lambda>q. length p < length q \<and> take (length p) q = p) (map fst t)"

definition put_to_s3_using_cli :: "env \<Rightarrow> processor \<Rightarrow> action" where
  "put_to_s3_using_cli ev self =
     run_all [local_cmd ev (''aws s3 cp '' @ path_str (local_folder self) @ ''/ ''
                            @ s3_path self @ '' --recursive''),
              (\<lambda>w. run_all (map do_unlink (descendants (files w) (local_folder self))) w)]"

definition sftp_fetch_and_archive_to_s3 :: "config \<Rightarrow> env \<Rightarrow> plugin \<Rightarrow> processor \<Rightarrow> action" where
  "sftp_fetch_and_archive_to_s3 cfg ev pl self =
     (if \<not> FETCH_DATA_FROM_SOURCE cfg then skip_fetch cfg self
      else run_all
        [do_mkdir (local_folder self),
         with_ssh (get_listed_files ev pl self),
         log_info (''copying all files from '' @ path_str (local_folder self)
                   @ '' to '' @ s3_path self),
         check_inserted_files pl self,
         put_to_s3_using_cli ev self])"

subsection \<open>Load phase\<close>

definition get_from_s3 :: "processor \<Rightarrow> path \<Rightarrow> string \<Rightarrow> action" where
  "get_from_s3 self fp sp =
     run_all [log_info (''copying '' @ path_str fp @ '' to '' @ sp),
              s3_get sp fp]"


definition load_from_s3_to_db :: "plugin \<Rightarrow> processor \<Rightarrow> action" where
  "load_from_s3_to_db pl self =
     run_all [do_mkdir (local_folder self),
              log_info (''copying '' @ s3_path self @ '' to '' @ path_str (file_path self)),
              get_from_s3 self (file_path self) (s3_path self),
              pre_copy_transform pl self,
              db_connect,
              pre_copy_sql pl self,
              copy_to_db pl self,
              db_commit,
              cleanup self]"


definition sftp_add_file_name_for_cleanup :: "processor \<Rightarrow> string \<Rightarrow> world
     \<Rightarrow> processor \<times> exn option \<times> world" where
  "sftp_add_file_name_for_cleanup self file_name w =
     (let self' = self\<lparr>file_path := pjoin (local_folder self) file_name\<rparr>
      in (self', cleanup self' w))"

section \<open>Command line\<close>

subsection \<open>\<open>iso_date\<close>\<close>

text \<open>
  \<open>datetime.strptime(s, '%Y-%m-%d')\<close>: the string must match, to its end, four
  digits, a hyphen, a month (\<open>1[0-2]|0[1-9]|[1-9]\<close>), a hyphen and a day
  (\<open>3[01]|[12]\d|0[1-9]|[1-9]| [1-9]\<close>), and name a date of the calendar from
  year 1 on.  \<open>None\<close> is \<open>ValueError\<close>.  A character of the model is one of
  the first 256 code points, among which the decimal digits are \<open>0\<close> to \<open>9\<close>;
  Python's \<open>\d\<close> also accepts the decimal digits of other scripts, and a
  string with such a character is outside the model.
\<close>

definition is_digit :: "char \<Rightarrow> bool" where
  "is_digit c = (c \<in> set ''0123456789'')"

definition is_nonzero_digit :: "char \<Rightarrow> bool" where
  "is_nonzero_digit c = (c \<in> set ''123456789'')"

definition digit_val :: "char \<Rightarrow> nat" where
  "digit_val c = length (takeWhile (\<lambda>d. d \<noteq> c) ''0123456789'')"

fun month_field :: "string \<Rightarrow> (nat \<times> string) option" where
  "month_field (a # b # c # r) =
     (if a = CHR ''1'' \<and> b \<in> set ''012'' \<and> c = CHR ''-'' then Some (10 + digit_val b, r)
      else if a = CHR ''0'' \<and> is_nonzero_digit b \<and> c = CHR ''-'' then Some (digit_val b, r)
      else if is_nonzero_digit a \<and> b = CHR ''-'' then Some (digit_val a, c # r)
      else None)"
| "month_field [a, b] =
     (if is_nonzero_digit a \<and> b = CHR ''-'' then Some (digit_val a, []) else None)"
| "month_field s = None"

fun day_field :: "string \<Rightarrow> nat option" where
  "day_field [a, b] =
     (if a = CHR ''3'' \<and> b \<in> set ''01'' then Some (30 + digit_val b)
      else if a \<in> set ''12'' \<and> is_digit b then Some (10 * digit_val a + digit_val b)
      else if a = CHR ''0'' \<and> is_nonzero_digit b then Some (digit_val b)
      else if a = CHR '' '' \<and> is_nonzero_digit b then Some (digit_val b)
      else None)"
| "day_field [a] = (if is_nonzero_digit a then Some (digit_val a) else None)"
| "day_field s = None"

definition is_leap :: "nat \<Rightarrow> bool" where
  "is_leap y = (y mod 4 = 0 \<and> (y mod 100 \<noteq> 0 \<or> y mod 400 = 0))"

definition days_in_month :: "nat \<Rightarrow> nat \<Rightarrow> nat" where
  "days_in_month y m =
     (if m = 2 then (if is_leap y then 29 else 28)
      else if m \<in> {4, 6, 9, 11} then 30 else 31)"

definition strptime_ymd :: "string \<Rightarrow> date option" where
  "strptime_ymd s =
     (case s of
        y1 # y2 # y3 # y4 # h # rest \<Rightarrow>
          if is_digit y1 \<and> is_digit y2 \<and> is_digit y3 \<and> is_digit y4 \<and> h = CHR ''-''
          then (case month_field rest of
                  None \<Rightarrow> None
                | Some (m, r) \<Rightarrow>
                   (case day_field r of
                      None \<Rightarrow> None
                    | Some d \<Rightarrow>
                       let y = 1000 * digit_val y1 + 100 * digit_val y2
                               + 10 * digit_val y3 + digit_val y4
                       in if 1 \<le> y \<and> d \<le> days_in_month y m
                          then Some \<lparr> year = y, month = m, day = d \<rparr>
                          else None))
          else None
      | _ \<Rightarrow> None)"

definition iso_date :: "string \<Rightarrow> exn + date" where
  "iso_date datestr =
     (case strptime_ymd datestr of
        Some date_obj \<Rightarrow> Inr date_obj
      | None \<Rightarrow> Inl (ArgumentTypeError
                      (datestr @ '' is not a valid date in YYYY-MM-DD format'')))"

subsection \<open>\<open>parse_arguments\<close>\<close>

text \<open>
  The parser that \<open>parse_arguments\<close> declares: the help option \<open>-h\<close>,
  \<open>--help\<close> that every parser has, \<open>--rundate\<close> and \<open>--fileformat\<close> with one
  value, \<open>--fetch\<close> and \<open>--load\<close> without, and no positional argument.  The
  definitions follow \<open>ArgumentParser._parse_known_args\<close> of CPython 3.11 for
  this parser.  Every error of the parser, an exception of the \<open>type\<close> function
  included, is an exit with status 2; the help action exits with status 0.
\<close>

record namespace =
  arg_run_date :: date
  arg_fetch :: bool
  arg_load :: bool
  arg_fileformat :: "string option"

text \<open>The namespace while it is filled, and \<open>extras\<close>, the arguments that were
  not recognised.\<close>

record parse_state =
  seen_run_date :: "date option"
  seen_fetch :: bool
  seen_load :: bool
  seen_fileformat :: "string option"
  extras :: "string list"

datatype option_kind = OptHelp | OptRundate | OptFetch | OptLoad | OptFileformat

text \<open>\<open>_option_string_actions\<close>, in the order of registration.\<close>

definition option_strings :: "(string \<times> option_kind) list" where
  "option_strings =
     [(''-h'', OptHelp), (''--help'', OptHelp), (''--rundate'', OptRundate),
      (''--fetch'', OptFetch), (''--load'', OptLoad), (''--fileformat'', OptFileformat)]"

text \<open>\<open>nargs\<close> is \<open>None\<close> (one value) for the two storing options, 0 for the
  others.\<close>

definition takes_value :: "option_kind \<Rightarrow> bool" where
  "takes_value k = (k = OptRundate \<or> k = OptFileformat)"

text \<open>\<open>s.partition('=')\<close>: the part before the first \<open>=\<close>, and the part after
  it when there is one.\<close>

fun split_eq :: "string \<Rightarrow> string \<times> string option" where
  "split_eq [] = ([], None)"
| "split_eq (c # cs) =
     (if c = CHR ''='' then ([], Some cs)
      else (case split_eq cs of (n, v) \<Rightarrow> (c # n, v)))"

text \<open>
  An option tuple \<open>(action, option_string, sep, explicit_arg)\<close>; the action is
  \<open>None\<close> for a string that looks like an option the parser does not have.
\<close>

type_synonym option_tuple = "option_kind option \<times> string \<times> string option \<times> string option"

definition get_option_tuples :: "string \<Rightarrow> option_tuple list" where
  "get_option_tuples s =
     (if take 2 s = ''--''
      then (case split_eq s of (option_prefix, explicit_arg) \<Rightarrow>
              map (\<lambda>(os, k). (Some k, os, map_option (\<lambda>e. ''='') explicit_arg, explicit_arg))
                (filter (\<lambda>(os, k). prefix option_prefix os) option_strings))
      else concat (map (\<lambda>(os, k).
                     if os = take 2 s then [(Some k, os, Some [], Some (drop 2 s))]
                     else if prefix s os then [(Some k, os, None, None)]
                     else []) option_strings))"

text \<open>
  \<open>_negative_number_matcher\<close>, the pattern \<open>^-\d+$|^-\d*\.\d+$\<close>; \<open>$\<close> matches
  at the end and before a newline that ends the string.
\<close>

definition negative_number :: "string \<Rightarrow> bool" where
  "negative_number s =
     (case s of
        [] \<Rightarrow> False
      | c # r \<Rightarrow>
          c = CHR ''-'' \<and>
          (let b = (if r \<noteq> [] \<and> last r = CHR 0x0A then butlast r else r);
               f = dropWhile is_digit b
           in (takeWhile is_digit b \<noteq> [] \<and> f = [])
              \<or> (case f of
                    [] \<Rightarrow> False
                  | d # g \<Rightarrow> d = CHR ''.'' \<and> g \<noteq> [] \<and> list_all is_digit g)))"

text \<open>\<open>_parse_optional\<close>: \<open>Inr None\<close> for a positional argument, an exit for an
  ambiguous abbreviation.\<close>

definition parse_optional :: "string \<Rightarrow> exn + option_tuple option" where
  "parse_optional s =
     (if s = [] then Inr None
      else if hd s \<noteq> CHR ''-'' then Inr None
      else case map_of option_strings s of
        Some k \<Rightarrow> Inr (Some (Some k, s, None, None))
      | None \<Rightarrow>
          if length s = 1 then Inr None
          else (case split_eq s of (os, x) \<Rightarrow>
            (case (x, map_of option_strings os) of
               (Some e, Some k) \<Rightarrow> Inr (Some (Some k, os, Some ''='', Some e))
             | _ \<Rightarrow>
               (case get_option_tuples s of
                  [] \<Rightarrow> if negative_number s then Inr None
                        else if CHR '' '' \<in> set s then Inr None
                        else Inr (Some (None, s, None, None))
                | [tup] \<Rightarrow> Inr (Some tup)
                | _ \<Rightarrow> Inl (SystemExit 2)))))"

text \<open>
  The first pass over the arguments gives each its letter of the pattern: \<open>O\<close>
  with its option tuple, \<open>A\<close>, or \<open>-\<close> for the first \<open>--\<close>, after which every
  argument is \<open>A\<close>.
\<close>

datatype arg_class = ArgA | ArgO option_tuple | ArgDash

fun classify :: "string list \<Rightarrow> exn + arg_class list" where
  "classify [] = Inr []"
| "classify (s # ss) =
     (if s = ''--'' then Inr (ArgDash # map (\<lambda>a. ArgA) ss)
      else case parse_optional s of
        Inl e \<Rightarrow> Inl e
      | Inr tup \<Rightarrow>
         (case classify ss of
            Inl e \<Rightarrow> Inl e
          | Inr cs \<Rightarrow> Inr ((case tup of None \<Rightarrow> ArgA | Some t \<Rightarrow> ArgO t) # cs)))"

declare classify.simps [simp del]

definition store_run_date :: "string \<Rightarrow> parse_state \<Rightarrow> exn + parse_state" where
  "store_run_date v st =
     (case iso_date v of
        Inl e \<Rightarrow> Inl (SystemExit 2)
      | Inr d \<Rightarrow> Inr (st\<lparr>seen_run_date := Some d\<rparr>))"

definition store_fileformat :: "string list \<Rightarrow> string \<Rightarrow> parse_state \<Rightarrow> exn + parse_state" where
  "store_fileformat fileformats v st =
     (if v \<in> set fileformats then Inr (st\<lparr>seen_fileformat := Some v\<rparr>)
      else Inl (SystemExit 2))"

text \<open>\<open>take_action\<close>: the value is converted and checked, then the action runs.\<close>

definition take_action :: "string list \<Rightarrow> option_kind \<times> string list \<Rightarrow> parse_state
     \<Rightarrow> exn + parse_state" where
  "take_action fileformats a st =
     (case a of
        (OptHelp, args) \<Rightarrow> Inl (SystemExit 0)
      | (OptFetch, args) \<Rightarrow> Inr (st\<lparr>seen_fetch := True\<rparr>)
      | (OptLoad, args) \<Rightarrow> Inr (st\<lparr>seen_load := True\<rparr>)
      | (OptRundate, args) \<Rightarrow> store_run_date (hd args) st
      | (OptFileformat, args) \<Rightarrow> store_fileformat fileformats (hd args) st)"

fun take_actions :: "string list \<Rightarrow> (option_kind \<times> string list) list \<Rightarrow> parse_state
     \<Rightarrow> exn + parse_state" where
  "take_actions fileformats [] st = Inr st"
| "take_actions fileformats (a # as) st =
     (case take_action fileformats a st of
        Inl e \<Rightarrow> Inl e
      | Inr st' \<Rightarrow> take_actions fileformats as st')"

text \<open>
  The loop of \<open>consume_optional\<close> for the option at the head, \<open>following\<close> being
  the arguments after it with their letters.  An explicit argument of a
  single-dash option without value is read as further single-dash options.  The
  result: the actions to take, in order, what goes to \<open>extras\<close>, and the number
  of following arguments consumed.
\<close>

function consume_optional ::
  "option_kind \<Rightarrow> string \<Rightarrow> string option \<Rightarrow> string option
     \<Rightarrow> (option_kind \<times> string list) list \<Rightarrow> (string \<times> arg_class) list
     \<Rightarrow> exn + (option_kind \<times> string list) list \<times> string list \<times> nat" where
  "consume_optional action option_string sep explicit_arg action_tuples following =
     (case explicit_arg of
        Some e \<Rightarrow>
          if \<not> takes_value action \<and> option_string ! 1 \<noteq> CHR ''-'' \<and> e \<noteq> []
          then
            if (sep \<noteq> None \<and> sep \<noteq> Some []) \<or> hd e = CHR ''-'' then Inl (SystemExit 2)
            else (case map_of option_strings [CHR ''-'', hd e] of
                    Some k \<Rightarrow>
                      if tl e = []
                      then consume_optional k [CHR ''-'', hd e] None None
                             (action_tuples @ [(action, [])]) following
                      else if hd (tl e) = CHR ''=''
                      then consume_optional k [CHR ''-'', hd e] (Some ''='') (Some (tl (tl e)))
                             (action_tuples @ [(action, [])]) following
                      else consume_optional k [CHR ''-'', hd e] (Some []) (Some (tl e))
                             (action_tuples @ [(action, [])]) following
                  | None \<Rightarrow> Inr (action_tuples @ [(action, [])], [CHR ''-'' # e], 0))
          else if takes_value action then Inr (action_tuples @ [(action, [e])], [], 0)
          else Inl (SystemExit 2)
      | None \<Rightarrow>
          if takes_value action
          then (case following of
                  (v, ArgA) # rest \<Rightarrow> Inr (action_tuples @ [(action, [v])], [], 1)
                | _ \<Rightarrow> Inl (SystemExit 2))
          else Inr (action_tuples @ [(action, [])], [], 0))"
  by pat_completeness auto

termination
  by (relation "measure (\<lambda>(action, option_string, sep, explicit_arg, action_tuples, following).
         case explicit_arg of None \<Rightarrow> 0 | Some e \<Rightarrow> Suc (length e))")
     (auto simp: neq_Nil_conv)

declare consume_optional.simps [simp del]

text \<open>The main loop: an argument that is no option, and an option the parser
  does not have, go to \<open>extras\<close>.\<close>

fun consume :: "string list \<Rightarrow> parse_state \<Rightarrow> (string \<times> arg_class) list
     \<Rightarrow> exn + parse_state" where
  "consume fileformats st [] = Inr st"
| "consume fileformats st ((s, ArgO (Some action, option_string, sep, explicit_arg)) # rest) =
     (case consume_optional action option_string sep explicit_arg [] rest of
        Inl e \<Rightarrow> Inl e
      | Inr (action_tuples, xs, n) \<Rightarrow>
         (case take_actions fileformats action_tuples (st\<lparr>extras := extras st @ xs\<rparr>) of
            Inl e \<Rightarrow> Inl e
          | Inr st' \<Rightarrow> consume fileformats st' (drop n rest)))"
| "consume fileformats st ((s, c) # rest) =
     consume fileformats (st\<lparr>extras := extras st @ [s]\<rparr>) rest"

text \<open>
  \<open>parse_args\<close>: after the loop, a missing \<open>--rundate\<close> (it is required) and
  any unrecognised argument are errors.
\<close>

definition parse_args :: "string list \<Rightarrow> string list \<Rightarrow> exn + namespace" where
  "parse_args fileformats args =
     (case classify args of
        Inl e \<Rightarrow> Inl e
      | Inr cs \<Rightarrow>
         (case consume fileformats
                 \<lparr> seen_run_date = None, seen_fetch = False, seen_load = False,
                   seen_fileformat = None, extras = [] \<rparr> (zip args cs) of
            Inl e \<Rightarrow> Inl e
          | Inr st \<Rightarrow>
             (case seen_run_date st of
                None \<Rightarrow> Inl (SystemExit 2)
              | Some d \<Rightarrow>
                  if extras st \<noteq> [] then Inl (SystemExit 2)
                  else Inr \<lparr> arg_run_date = d, arg_fetch = seen_fetch st,
                             arg_load = seen_load st,
                             arg_fileformat = seen_fileformat st \<rparr>)))"

text \<open>
  \<open>parse_arguments(argv, fileformats)\<close>.  \<open>sys_argv\<close> is the argument vector of
  the process, which \<open>parser.parse_args()\<close> reads.  The parameter \<open>argv\<close> becomes
  the \<open>prog\<close> of the parser and shows only in what the parser prints when it
  exits: the second component of the result.
\<close>

definition parse_arguments :: "string list \<Rightarrow> string list \<Rightarrow> string list
     \<Rightarrow> (exn + namespace) \<times> event list" where
  "parse_arguments argv fileformats sys_argv =
     (case parse_args fileformats (tl sys_argv) of
        Inl e \<Rightarrow> (Inl e, [ParserExit argv e])
      | Inr args \<Rightarrow>
          if \<not> arg_fetch args \<and> \<not> arg_load args
          then (Inl (ArgumentTypeError ''You must specify either --fetch, --load or both''), [])
          else (Inr args, []))"

subsection \<open>\<open>main\<close> of the hitwise script\<close>

text \<open>\<open>klass\<close> is the class \<open>CompetitorRankings\<close>: its methods call the HTTP
  client, pandas and the database, which are outside the sources.\<close>

definition file_formats :: "plugin \<Rightarrow> (string \<times> string \<times> plugin \<times> string) list" where
  "file_formats klass =
     [(''competitor_rankings'', (''competitor_rankings_weekly.xls'', klass, ''bytes''))]"

definition main :: "config \<Rightarrow> env \<Rightarrow> plugin \<Rightarrow> string list \<Rightarrow> string list \<Rightarrow> action" where
  "main cfg ev klass argv sys_argv w =
     (let w0 = emit LoggingConfigured w in
      case parse_arguments argv (map fst (file_formats klass)) sys_argv of
        (Inl e, out) \<Rightarrow> (Some e, w0\<lparr>trace := trace w0 @ out\<rparr>)
      | (Inr args, out) \<Rightarrow>
         (case arg_fileformat args of
            None \<Rightarrow> (Some KeyError, w0)
          | Some ff \<Rightarrow>
             (case map_of (file_formats klass) ff of
                None \<Rightarrow> (Some KeyError, w0)
              | Some (filename, processor_class, art) \<Rightarrow>
                 (case init cfg (arg_run_date args) ''hitwise'' (Some filename) art w0 of
                    (processor, w1) \<Rightarrow>
                      run_all
                        [(if arg_fetch args
                          then fetch_and_archive_to_s3 cfg ev processor_class processor
                          else run_all []),
                         (if arg_load args
                          then load_from_s3_to_db processor_class processor
                          else run_all [])] w1))))"

section \<open>Notions the properties are stated with\<close>


text \<open>A date of the calendar, as \<open>datetime.date\<close> holds it: years 1 to 9999.\<close>

definition valid_date :: "date \<Rightarrow> bool" where
  "valid_date d =
     (1 \<le> year d \<and> year d \<le> 9999 \<and> 1 \<le> month d \<and> month d \<le> 12
      \<and> 1 \<le> day d \<and> day d \<le> days_in_month (year d) (month d))"


subsection \<open>A concrete run\<close>

text \<open>The values of the scenario the spec describes: run date 2023-05-01, source
  system \<open>hitwise\<close>, one spreadsheet, a staging root and a bucket.\<close>

definition example_cfg :: config where
  "example_cfg = \<lparr> ETL_DATA_HOME = ''/data/etl'', ETL_S3_BUCKET = ''archive-bucket'',
                   FETCH_DATA_FROM_SOURCE = True, SFTP_PATH_SERVER = ''/outgoing/'',
                   SFTP_USER_SERVER = ''etl'', SFTP_NAME_SERVER = ''sftp.example.org'' \<rparr>"

definition example_date :: date where
  "example_date = \<lparr> year = 2023, month = 5, day = 1 \<rparr>"

definition example_filename :: string where
  "example_filename = ''competitor_rankings_weekly.xls''"

definition empty_world :: world where
  "empty_world = \<lparr> files = [], s3 = [], s3_fault = None, db_ddl = [], db_pending = [],
                    db_committed = [], trace = [] \<rparr>"

definition example_processor :: processor where
  "example_processor =
     fst (init example_cfg example_date ''hitwise'' (Some example_filename) ''bytes'' empty_world)"





text \<open>Collaborators for the concrete run: rows joined by commas and ended by CR LF,
  text written as it is, commands that do nothing, and an archive client that
  stores at the key it is given.\<close>

definition example_env :: env where
  "example_env =
     \<lparr> csv_writerows = (\<lambda>rs. concat (map (\<lambda>r. intercalate '','' r @ [CHR 0x0D, CHR 0x0A]) rs)),
       encode_text = (\<lambda>t. t),
       ssh_get_file = (\<lambda>src dst. run_all []),
       local_cmd = (\<lambda>cmd. run_all []),
       s3_put_key = (\<lambda>lpath rpath. rpath) \<rparr>"

text \<open>The same collaborators with an archive client that places the file under
  the target.\<close>

definition nesting_env :: env where
  "nesting_env =
     example_env\<lparr> s3_put_key := (\<lambda>lpath rpath.
        case rev lpath of [] \<Rightarrow> rpath | name # _ \<Rightarrow> rpath @ ''/'' @ name) \<rparr>"

text \<open>A source whose fetch returns the three bytes \<open>ABC\<close> and whose schema hook
  issues one statement and whose copy hook loads two tables.\<close>

definition working_plugin :: plugin where
  "working_plugin =
     \<lparr> fetch_from_api = (\<lambda>self w. (Inr (PBytes ''ABC''), w)),
       fetch_names = (\<lambda>self w. (Inr [], w)),
       check_inserted_files = (\<lambda>self. run_all []),
       pre_copy_transform = (\<lambda>self. run_all []),
       pre_copy_sql = (\<lambda>self. execddl [''create table if not exists ddd_staging.hitwise'']),
       copy_to_db = (\<lambda>self. run_all
          [csv_to_table ''ddd_staging.hitwise'' ''a,b'',
           csv_to_table ''ddd_staging.hitwise_wider_comparison'' ''c,d'']) \<rparr>"


text \<open>The table after an attempt to remove a directory whose failure is tolerated.\<close>

definition after_rmdir :: "fs \<Rightarrow> path \<Rightarrow> fs" where
  "after_rmdir t d = (case rmdir t d of Inr t' \<Rightarrow> t' | Inl e \<Rightarrow> t)"

text \<open>The staging area of the concrete run after the payload was written, and a
  staging area in which the dated folder is a regular file.\<close>

definition staged_world :: world where
  "staged_world = empty_world\<lparr> files :=
     [([''/'', ''data''], Dir), ([''/'', ''data'', ''etl''], Dir),
      ([''/'', ''data'', ''etl'', ''hitwise''], Dir),
      ([''/'', ''data'', ''etl'', ''hitwise'', ''20230501''], Dir),
      ([''/'', ''data'', ''etl'', ''hitwise'', ''20230501'', example_filename], File ''ABC'')] \<rparr>"

definition blocked_world :: world where
  "blocked_world = empty_world\<lparr> files :=
     [([''/'', ''data''], Dir), ([''/'', ''data'', ''etl''], Dir),
      ([''/'', ''data'', ''etl'', ''hitwise''], Dir),
      ([''/'', ''data'', ''etl'', ''hitwise'', ''20230501''], File [])] \<rparr>"

text \<open>The statements of \<open>fetch_and_archive_to_s3\<close> that precede the upload: they
  create the staging folder and write the payload in the encoding of the declared
  return type.\<close>

definition staging_stage :: "env \<Rightarrow> plugin \<Rightarrow> processor \<Rightarrow> action" where
  "staging_stage ev pl self =
     run_all
       [do_mkdir (local_folder self),
        log_info (''writing locally to '' @ path_str (file_path self)),
        (if api_return_type self = ''generator'' then
           with_fetch pl self (\<lambda>v.
             if v = POther then raise TypeError
             else run_all [do_open (file_path self), write_rows ev (file_path self) v])
         else if api_return_type self = ''list'' then
           run_all [do_open (file_path self),
                    with_fetch pl self (write_text ev (file_path self))]
         else
           run_all [do_open (file_path self),
                    with_fetch pl self (write_bytes (file_path self))])]"

text \<open>What the fetch phase logs and prints when fetching is switched off.\<close>

definition skip_messages :: "processor \<Rightarrow> event list" where
  "skip_messages self =
     [LogInfo (''copying all files from '' @ path_str (local_folder self)
               @ '' to '' @ s3_path self),
      Print ''FETCH_DATA_FROM_SOURCE is set to False returning for fetch'']"


text \<open>A world whose archive service is unreachable, and a staging area whose dated
  folder already holds another file.\<close>

definition offline_world :: world where
  "offline_world = empty_world\<lparr> s3_fault := Some (PluginError ''archive unreachable'') \<rparr>"

definition crowded_world :: world where
  "crowded_world = empty_world\<lparr> files :=
     [([''/'', ''data''], Dir), ([''/'', ''data'', ''etl''], Dir),
      ([''/'', ''data'', ''etl'', ''hitwise''], Dir),
      ([''/'', ''data'', ''etl'', ''hitwise'', ''20230501''], Dir),
      ([''/'', ''data'', ''etl'', ''hitwise'', ''20230501'', ''dfs_competitors.csv''],
       File ''a,b'')] \<rparr>"

text \<open>The processor of the hitwise scenario under a given configuration.\<close>

definition hitwise_processor :: "config \<Rightarrow> processor" where
  "hitwise_processor cfg =
     fst (init cfg example_date ''hitwise'' (Some example_filename) ''bytes'' empty_world)"

section \<open>Properties\<close>

subsection \<open>Paths\<close>







































lemma compact_example: "strftime_compact example_date = ''20230501''"
  by (simp add: strftime_compact_def example_date_def dec.simps pad2_def digit_char_def)


lemmas example_defs = example_cfg_def example_date_def example_filename_def empty_world_def


lemma month_field_bounds: "month_field s = Some (m, r) \<Longrightarrow> 1 \<le> m \<and> m \<le> 12"
  by (induction s rule: month_field.induct)
     (auto simp: is_nonzero_digit_def digit_val_def split: if_splits)

lemma day_field_bounds: "day_field s = Some d \<Longrightarrow> 1 \<le> d \<and> d \<le> 31"
  by (induction s rule: day_field.induct)
     (auto simp: is_nonzero_digit_def is_digit_def digit_val_def split: if_splits)


lemma digit_val_le: "is_digit c \<Longrightarrow> digit_val c \<le> 9"
  by (auto simp: digit_val_def is_digit_def)

text \<open>Every date that \<open>iso_date\<close> returns is a date of the calendar.\<close>

lemma strptime_valid: "strptime_ymd s = Some d \<Longrightarrow> valid_date d"
proof -
  assume a: "strptime_ymd s = Some d"
  then obtain y1 y2 y3 y4 h rest m r dd where
    mf: "month_field rest = Some (m, r)" and df: "day_field r = Some dd"
    and d: "d = \<lparr> year = 1000 * digit_val y1 + 100 * digit_val y2 + 10 * digit_val y3
                      + digit_val y4, month = m, day = dd \<rparr>"
    and ok: "1 \<le> year d" "dd \<le> days_in_month (year d) m"
    and dg: "is_digit y1" "is_digit y2" "is_digit y3" "is_digit y4"
    by (auto simp: strptime_ymd_def Let_def split: list.splits if_splits option.splits)
  from digit_val_le [OF dg(1)] digit_val_le [OF dg(2)] digit_val_le [OF dg(3)]
    digit_val_le [OF dg(4)] d
  have "year d \<le> 9999" by simp
  with month_field_bounds [OF mf] day_field_bounds [OF df] ok d show ?thesis
    by (simp add: valid_date_def)
qed

subsection \<open>Sequencing\<close>



lemmas fs_defs = do_mkdir_def do_open_def do_write_def do_unlink_def do_rmdir_def fs_action_def
  mkdir_parents_def ancestors_def open_write_def write_file_def unlink_def rmdir_def
  is_dir_def is_file_def is_absolute_def has_children_def emit_def log_info_def print_def
  upt_conv_Cons

lemma example_processor_simps:
  "local_folder example_processor = [''/'', ''data'', ''etl'', ''hitwise'', ''20230501'']"
  "file_path example_processor =
     [''/'', ''data'', ''etl'', ''hitwise'', ''20230501'', ''competitor_rankings_weekly.xls'']"
  "s3_path example_processor = ''archive-bucket/hitwise/20230501/competitor_rankings_weekly.xls''"
  "api_return_type example_processor = ''bytes''"
  unfolding example_processor_def init_def Let_def compact_example
  by (simp_all add: example_cfg_def example_filename_def truthy_def pjoin_def Path_def
        path_root_def is_absolute_def)


subsection \<open>Load phase\<close>




subsection \<open>Cleanup\<close>

lemma check_dirs_err:
  "check_dirs t qs = Some e \<Longrightarrow> e = NotADirectoryError \<or> e = FileNotFoundError"
  by (induction qs) (auto split: if_splits)

lemma rmdir_err: "rmdir t d = Inl e \<Longrightarrow> is_OSError e"
  by (auto simp: rmdir_def split: option.splits if_splits dest: check_dirs_err)

lemma unlink_err:
  "unlink t u = Inl e \<Longrightarrow>
     e = FileNotFoundError \<or> e = IsADirectoryError
     \<or> (e = NotADirectoryError \<and> check_dirs t (ancestors u) = Some NotADirectoryError)"
  by (auto simp: unlink_def split: option.splits if_splits dest: check_dirs_err)

lemma files_emit [simp]: "files (emit ev w) = files w"
  by (simp add: emit_def)

lemma rmdir_if_empty_fst [simp]: "fst (rmdir_if_empty d w) = None"
  by (auto simp: rmdir_if_empty_def do_rmdir_def fs_action_def
        split: sum.splits prod.splits option.splits dest: rmdir_err)

lemma rmdir_if_empty_files [simp]: "files (snd (rmdir_if_empty d w)) = after_rmdir (files w) d"
  by (auto simp: rmdir_if_empty_def do_rmdir_def fs_action_def after_rmdir_def
        split: sum.splits prod.splits option.splits dest: rmdir_err)

lemma cleanup_fst:
  "fst (cleanup self w) =
     (case unlink (files w) (file_path self) of
        Inr t \<Rightarrow> None
      | Inl e \<Rightarrow> if e = FileNotFoundError \<or> e = IsADirectoryError then None else Some e)"
  by (simp add: cleanup_def do_unlink_def fs_action_def split: sum.splits)

lemma cleanup_files:
  "files (snd (cleanup self w)) =
     (case unlink (files w) (file_path self) of
        Inr t \<Rightarrow> after_rmdir t (local_folder self)
      | Inl e \<Rightarrow> if e = FileNotFoundError \<or> e = IsADirectoryError
                then after_rmdir (files w) (local_folder self) else files w)"
  by (simp add: cleanup_def do_unlink_def fs_action_def split: sum.splits)

lemma is_dir_delete:
  "is_dir (AList.delete k t) p =
     (is_dir t p \<and> (p = k \<longrightarrow> p = [] \<or> (is_absolute p \<and> length p = 1)))"
  by (auto simp: is_dir_def delete_conv')

lemma is_file_not_dir: "is_file t p \<Longrightarrow> \<not> is_dir t p"
  by (simp add: is_file_def)

lemma is_file_delete: "is_file (AList.delete k t) p = (p \<noteq> k \<and> is_file t p)"
  by (auto simp: is_file_def is_dir_def delete_conv')

lemma check_dirs_delete:
  "check_dirs (AList.delete k t) qs = check_dirs t qs
   \<or> check_dirs (AList.delete k t) qs = Some FileNotFoundError"
  by (induction qs) (auto simp: is_dir_delete is_file_delete dest: is_file_not_dir)

lemma unlink_after_unlink:
  assumes "unlink t u = Inr t1"
  shows "unlink t1 u = Inl FileNotFoundError"
  using assms check_dirs_delete [of u t "ancestors u"]
  by (auto simp: unlink_def is_dir_delete is_file_delete split: option.splits if_splits
        dest: is_file_not_dir)

lemma unlink_tolerated_after_delete:
  assumes "unlink t u = Inl FileNotFoundError \<or> unlink t u = Inl IsADirectoryError"
  shows "unlink (AList.delete d t) u = Inl FileNotFoundError
       \<or> unlink (AList.delete d t) u = Inl IsADirectoryError"
  using assms check_dirs_delete [of d t "ancestors u"]
  by (auto simp: unlink_def is_dir_delete is_file_delete split: option.splits if_splits
        dest: is_file_not_dir)

lemma rmdir_Inr:
  "rmdir t d = Inr t' \<Longrightarrow>
     t' = AList.delete d t \<and> d \<noteq> [] \<and> \<not> (is_absolute d \<and> length d = 1)
     \<and> \<not> has_children t d"
  by (simp add: rmdir_def split: option.splits if_splits)

lemma after_rmdir_cases: "after_rmdir t d = t \<or> after_rmdir t d = AList.delete d t"
  by (cases "rmdir t d") (auto simp: after_rmdir_def dest: rmdir_Inr)

lemma rmdir_deleted:
  "d \<noteq> [] \<Longrightarrow> \<not> (is_absolute d \<and> length d = 1) \<Longrightarrow> \<exists>e. rmdir (AList.delete d t) d = Inl e"
  by (simp add: rmdir_def is_dir_delete is_file_delete split: option.splits)

lemma after_rmdir_idem: "after_rmdir (after_rmdir t d) d = after_rmdir t d"
proof (cases "rmdir t d")
  case (Inl e)
  then show ?thesis by (simp add: after_rmdir_def)
next
  case (Inr t')
  from rmdir_Inr [OF Inr] rmdir_deleted [of d t] obtain e where "rmdir t' d = Inl e"
    by auto
  with Inr show ?thesis by (simp add: after_rmdir_def)
qed


lemma cleanup_idempotent:
  assumes "fst (cleanup self w) = None"
  shows "fst (cleanup self (snd (cleanup self w))) = None
       \<and> files (snd (cleanup self (snd (cleanup self w)))) = files (snd (cleanup self w))"
proof -
  let ?u = "file_path self" and ?d = "local_folder self"
  obtain t1 where t1: "files (snd (cleanup self w)) = after_rmdir t1 ?d"
    and tol: "unlink t1 ?u = Inl FileNotFoundError \<or> unlink t1 ?u = Inl IsADirectoryError"
  proof (cases "unlink (files w) ?u")
    case (Inl e)
    with assms have "e = FileNotFoundError \<or> e = IsADirectoryError"
      by (simp add: cleanup_fst split: if_splits)
    with Inl that [of "files w"] show ?thesis
      by (auto simp: cleanup_files)
  next
    case (Inr t)
    with that [of t] unlink_after_unlink [OF Inr] show ?thesis
      by (simp add: cleanup_files)
  qed
  have "unlink (after_rmdir t1 ?d) ?u = Inl FileNotFoundError
      \<or> unlink (after_rmdir t1 ?d) ?u = Inl IsADirectoryError"
    using after_rmdir_cases [of t1 ?d] tol unlink_tolerated_after_delete [OF tol, of ?d]
    by auto
  then show ?thesis
    using t1 by (auto simp: cleanup_fst cleanup_files after_rmdir_idem)
qed

lemma cleanup_raises_only:
  "fst (cleanup self w) = None
   \<or> (fst (cleanup self w) = Some NotADirectoryError
      \<and> check_dirs (files w) (ancestors (file_path self)) = Some NotADirectoryError
      \<and> files (snd (cleanup self w)) = files w)"
  by (cases "unlink (files w) (file_path self)")
     (auto simp: cleanup_fst cleanup_files dest: unlink_err)

lemma has_children_delete: "has_children (AList.delete d t) d = has_children t d"
  by (auto simp: has_children_def delete_keys)

lemma after_rmdir_keeps_nonempty:
  assumes "is_dir t d" and "\<not> is_dir (after_rmdir t d) d"
  shows "\<not> has_children (after_rmdir t d) d"
proof (cases "rmdir t d")
  case (Inl e)
  with assms show ?thesis by (simp add: after_rmdir_def)
next
  case (Inr t')
  with rmdir_Inr [OF Inr] show ?thesis
    by (simp add: after_rmdir_def has_children_delete)
qed

lemma unlink_Inr: "unlink t u = Inr t' \<Longrightarrow> t' = AList.delete u t \<and> is_file t u"
  by (simp add: unlink_def split: option.splits if_splits)

lemma cleanup_removes_only_empty_folder:
  assumes "is_dir (files w) (local_folder self)"
      and "\<not> is_dir (files (snd (cleanup self w))) (local_folder self)"
  shows "\<not> has_children (files (snd (cleanup self w))) (local_folder self)"
proof (cases "unlink (files w) (file_path self)")
  case (Inl e)
  with assms after_rmdir_keeps_nonempty [of "files w" "local_folder self"] show ?thesis
    by (auto simp: cleanup_files split: if_splits)
next
  case (Inr t)
  from unlink_Inr [OF Inr] assms(1) have "is_dir t (local_folder self)"
    by (auto simp: is_dir_delete dest: is_file_not_dir)
  with Inr assms(2) after_rmdir_keeps_nonempty [of t "local_folder self"] show ?thesis
    by (simp add: cleanup_files)
qed

lemma after_rmdir_map_of: "p \<noteq> d \<Longrightarrow> map_of (after_rmdir t d) p = map_of t p"
  using after_rmdir_cases [of t d] by auto

lemma cleanup_touches_only:
  assumes "p \<noteq> file_path self" and "p \<noteq> local_folder self"
  shows "map_of (files (snd (cleanup self w))) p = map_of (files w) p"
  using assms
  by (cases "unlink (files w) (file_path self)")
     (auto simp: cleanup_files after_rmdir_map_of dest: unlink_Inr)

lemma cleanup_frame:
  "s3 (snd (cleanup self w)) = s3 w \<and> db_committed (snd (cleanup self w)) = db_committed w
   \<and> db_pending (snd (cleanup self w)) = db_pending w"
  by (simp add: cleanup_def rmdir_if_empty_def do_unlink_def do_rmdir_def fs_action_def emit_def
        split: sum.splits prod.splits option.splits)

text \<open>
  C5, as the claim states it, fails: \<open>_cleanup\<close> can raise.  When the staging
  folder of the concrete run is a regular file, unlinking the staging file is a
  \<open>NotADirectoryError\<close>, which the handler of \<open>_cleanup\<close> does not catch.
\<close>

theorem cleanup_raises_counterexample:
  "fst (cleanup example_processor blocked_world) = Some NotADirectoryError"
  by (simp add: cleanup_def blocked_world_def example_processor_simps fs_defs empty_world_def)

text \<open>
  C5, amended.  \<open>_cleanup\<close> tolerates a missing staging file and a staging path
  that is a directory, and every \<open>OSError\<close> of the directory removal.  It
  raises only when a proper ancestor of the staging path is a regular file, the
  exception is then \<open>NotADirectoryError\<close> and the file system is unchanged.  It
  touches no entry other than the staging file and the staging folder, leaves the
  archive and the database alone, and a folder that was a directory and is gone
  afterwards had nothing in it.  When a call returns normally, a second call
  right after it returns normally too and leaves the file system as the first
  call left it.
\<close>

theorem cleanup_tolerant_idempotent:
  "(fst (cleanup self w) = None
    \<or> (fst (cleanup self w) = Some NotADirectoryError
       \<and> check_dirs (files w) (ancestors (file_path self)) = Some NotADirectoryError
       \<and> files (snd (cleanup self w)) = files w))
   \<and> (fst (cleanup self w) = None \<longrightarrow>
        fst (cleanup self (snd (cleanup self w))) = None
      \<and> files (snd (cleanup self (snd (cleanup self w)))) = files (snd (cleanup self w)))
   \<and> (is_dir (files w) (local_folder self)
        \<and> \<not> is_dir (files (snd (cleanup self w))) (local_folder self)
      \<longrightarrow> \<not> has_children (files (snd (cleanup self w))) (local_folder self))
   \<and> (\<forall>p. p \<noteq> file_path self \<and> p \<noteq> local_folder self
        \<longrightarrow> map_of (files (snd (cleanup self w))) p = map_of (files w) p)
   \<and> s3 (snd (cleanup self w)) = s3 w
   \<and> db_committed (snd (cleanup self w)) = db_committed w
   \<and> db_pending (snd (cleanup self w)) = db_pending w"
  using cleanup_raises_only [of self w] cleanup_idempotent [of self w]
    cleanup_removes_only_empty_folder [of w self] cleanup_touches_only [of _ self w]
    cleanup_frame [of self w]
  by blast

theorem cleanup_tolerant_idempotent_witness:
  "fst (cleanup example_processor staged_world) = None
   \<and> is_dir (files staged_world) (local_folder example_processor)
   \<and> \<not> is_dir (files (snd (cleanup example_processor staged_world)))
          (local_folder example_processor)
   \<and> [''/'', ''data''] \<noteq> file_path example_processor
   \<and> [''/'', ''data''] \<noteq> local_folder example_processor
   \<and> files (snd (cleanup example_processor staged_world))
       = [([''/'', ''data''], Dir), ([''/'', ''data'', ''etl''], Dir),
          ([''/'', ''data'', ''etl'', ''hitwise''], Dir)]
   \<and> fst (cleanup example_processor (snd (cleanup example_processor staged_world))) = None
   \<and> files (snd (cleanup example_processor (snd (cleanup example_processor staged_world))))
       = [([''/'', ''data''], Dir), ([''/'', ''data'', ''etl''], Dir),
          ([''/'', ''data'', ''etl'', ''hitwise''], Dir)]"
proof -
  have once: "cleanup example_processor staged_world
      = rmdir_if_empty (local_folder example_processor)
          (snd (do_unlink (file_path example_processor)
             (emit (LogInfo (''deleting '' @ path_str (file_path example_processor)))
                staged_world)))"
    by (simp add: cleanup_def staged_world_def example_processor_simps fs_defs empty_world_def
          example_filename_def)
  have ok: "fst (cleanup example_processor staged_world) = None"
    by (simp add: once)
  have fs1: "files (snd (cleanup example_processor staged_world))
       = [([''/'', ''data''], Dir), ([''/'', ''data'', ''etl''], Dir),
          ([''/'', ''data'', ''etl'', ''hitwise''], Dir)]"
    by (subst once)
       (simp add: after_rmdir_def staged_world_def example_processor_simps fs_defs
          empty_world_def example_filename_def)
  from cleanup_tolerant_idempotent [of example_processor staged_world] ok
  have twice: "fst (cleanup example_processor (snd (cleanup example_processor staged_world))) = None
     \<and> files (snd (cleanup example_processor (snd (cleanup example_processor staged_world))))
         = files (snd (cleanup example_processor staged_world))"
    by blast
  have dirs: "is_dir (files staged_world) (local_folder example_processor)
     \<and> \<not> is_dir [([''/'', ''data''], Dir), ([''/'', ''data'', ''etl''], Dir),
                   ([''/'', ''data'', ''etl'', ''hitwise''], Dir)]
            (local_folder example_processor)
     \<and> [''/'', ''data''] \<noteq> file_path example_processor
     \<and> [''/'', ''data''] \<noteq> local_folder example_processor"
    by (simp add: staged_world_def example_processor_simps is_dir_def is_absolute_def
          empty_world_def)
  from ok fs1 twice dirs show ?thesis
    by simp
qed

subsection \<open>Load phase, bulk-directory variant\<close>





subsection \<open>Fetch phase\<close>

lemma run_all_single [simp]: "run_all [a] = a"
  by (rule ext) (simp split: prod.splits option.splits)

lemma fetch_and_archive_to_s3_stages:
  "FETCH_DATA_FROM_SOURCE cfg \<Longrightarrow>
   fetch_and_archive_to_s3 cfg ev pl self =
     run_all [staging_stage ev pl self, put_to_s3 ev self (file_path self) (s3_path self)]"
  apply (rule ext)
  apply (simp add: fetch_and_archive_to_s3_def staging_stage_def with_fetch_def raise_def
      split: prod.splits option.splits sum.splits)
  done

lemma s3_put_trace: "trace (snd (s3_put ev fp sp w)) = trace w @ [EvS3Put fp sp]"
  by (simp add: s3_put_def Let_def emit_def split: option.splits node.splits)

lemma s3_put_files: "files (snd (s3_put ev fp sp w)) = files w"
  by (simp add: s3_put_def Let_def emit_def split: option.splits node.splits)

lemma s3_put_fails: "fst (s3_put ev fp sp w) = Some e \<Longrightarrow> s3 (snd (s3_put ev fp sp w)) = s3 w"
  by (simp add: s3_put_def Let_def emit_def split: option.splits node.splits if_splits)

lemma rmdir_if_empty_trace: "\<exists>rest. trace (snd (rmdir_if_empty d w)) = trace w @ rest"
  by (auto simp: rmdir_if_empty_def do_rmdir_def fs_action_def emit_def
        split: sum.splits prod.splits option.splits)

lemma cleanup_trace:
  "\<exists>rest. trace (snd (cleanup self w))
     = trace w @ LogInfo (''deleting '' @ path_str (file_path self))
               # EvUnlink (file_path self) # rest"
proof (cases "unlink (files w) (file_path self)")
  case (Inl e)
  show ?thesis
  proof (cases "e = FileNotFoundError \<or> e = IsADirectoryError")
    case True
    with Inl rmdir_if_empty_trace [of "local_folder self"
        "emit (Print ''folder is not empty'') (emit (PrintExn e)
           (emit (EvUnlink (file_path self))
              (emit (LogInfo (''deleting '' @ path_str (file_path self))) w)))"]
    show ?thesis
      by (auto simp: cleanup_def do_unlink_def fs_action_def emit_def)
  next
    case False
    with Inl show ?thesis
      by (auto simp: cleanup_def do_unlink_def fs_action_def emit_def)
  qed
next
  case (Inr t)
  with rmdir_if_empty_trace [of "local_folder self"
      "(emit (EvUnlink (file_path self))
          (emit (LogInfo (''deleting '' @ path_str (file_path self))) w))\<lparr>files := t\<rparr>"]
  show ?thesis
    by (auto simp: cleanup_def do_unlink_def fs_action_def emit_def)
qed


text \<open>
  C6.  When fetching is switched off, \<open>fetch_and_archive_to_s3\<close> and its
  multi-file variant return at once without an exception; the world they return
  is the one they were given with the log line and the printed line added to the
  trace.  No hook is called (the result does not depend on the plug-in), the
  archive, the staging area and the database are as before.
\<close>

theorem skip_fetch_touches_nothing:
  assumes "\<not> FETCH_DATA_FROM_SOURCE cfg"
  shows "fetch_and_archive_to_s3 cfg ev pl self w
           = (None, w\<lparr>trace := trace w @ skip_messages self\<rparr>)
       \<and> sftp_fetch_and_archive_to_s3 cfg ev pl self w
           = (None, w\<lparr>trace := trace w @ skip_messages self\<rparr>)"
  using assms
  by (simp add: fetch_and_archive_to_s3_def sftp_fetch_and_archive_to_s3_def skip_fetch_def
        skip_messages_def log_info_def print_def emit_def bool_str_def)

theorem skip_fetch_touches_nothing_witness:
  "\<not> FETCH_DATA_FROM_SOURCE (example_cfg\<lparr>FETCH_DATA_FROM_SOURCE := False\<rparr>)
   \<and> fetch_and_archive_to_s3 (example_cfg\<lparr>FETCH_DATA_FROM_SOURCE := False\<rparr>) example_env
        working_plugin example_processor staged_world
       = (None, staged_world\<lparr>trace :=
            [LogInfo (''copying all files from /data/etl/hitwise/20230501 to ''
                      @ ''archive-bucket/hitwise/20230501/competitor_rankings_weekly.xls''),
             Print ''FETCH_DATA_FROM_SOURCE is set to False returning for fetch'']\<rparr>)
   \<and> sftp_fetch_and_archive_to_s3 (example_cfg\<lparr>FETCH_DATA_FROM_SOURCE := False\<rparr>)
        example_env working_plugin example_processor staged_world
       = (None, staged_world\<lparr>trace :=
            [LogInfo (''copying all files from /data/etl/hitwise/20230501 to ''
                      @ ''archive-bucket/hitwise/20230501/competitor_rankings_weekly.xls''),
             Print ''FETCH_DATA_FROM_SOURCE is set to False returning for fetch'']\<rparr>)"
  using skip_fetch_touches_nothing [of "example_cfg\<lparr>FETCH_DATA_FROM_SOURCE := False\<rparr>"
          example_env working_plugin example_processor staged_world]
  by (simp add: skip_messages_def example_processor_simps path_str_def is_absolute_def
        staged_world_def empty_world_def)

text \<open>
  C8.  In the fetch phase, once the payload is staged, the upload is attempted
  before anything of the cleanup.  If the upload raises, the operation ends with
  that exception: the staging files are the ones that were staged and the trace
  ends with the upload, so no unlink and no directory removal was attempted.  If
  the upload returns, the operation continues with \<open>_cleanup\<close>, and the
  upload precedes the unlink in the trace.
\<close>

theorem upload_before_cleanup:
  assumes "FETCH_DATA_FROM_SOURCE cfg"
      and "staging_stage ev pl self w = (None, w1)"
  shows "(\<forall>e wx. s3_put ev (file_path self) (s3_path self)
                  (emit (LogInfo (''copying '' @ path_str (file_path self) @ '' to ''
                                  @ s3_path self)) w1) = (Some e, wx)
            \<longrightarrow> fetch_and_archive_to_s3 cfg ev pl self w = (Some e, wx)
              \<and> files wx = files w1
              \<and> trace wx = trace w1 @ [LogInfo (''copying '' @ path_str (file_path self)
                                                @ '' to '' @ s3_path self),
                                       EvS3Put (file_path self) (s3_path self)])
       \<and> (\<forall>w2. s3_put ev (file_path self) (s3_path self)
                  (emit (LogInfo (''copying '' @ path_str (file_path self) @ '' to ''
                                  @ s3_path self)) w1) = (None, w2)
            \<longrightarrow> fetch_and_archive_to_s3 cfg ev pl self w = cleanup self w2
              \<and> (\<exists>rest. trace (snd (fetch_and_archive_to_s3 cfg ev pl self w))
                    = trace w1 @ LogInfo (''copying '' @ path_str (file_path self)
                                          @ '' to '' @ s3_path self)
                               # EvS3Put (file_path self) (s3_path self)
                               # LogInfo (''deleting '' @ path_str (file_path self))
                               # EvUnlink (file_path self) # rest))"
proof (intro conjI allI impI)
  fix e wx
  assume a: "s3_put ev (file_path self) (s3_path self)
                  (emit (LogInfo (''copying '' @ path_str (file_path self) @ '' to ''
                                  @ s3_path self)) w1) = (Some e, wx)"
  from a assms show "fetch_and_archive_to_s3 cfg ev pl self w = (Some e, wx)"
    by (simp add: fetch_and_archive_to_s3_stages put_to_s3_def log_info_def)
  from s3_put_files [of ev "file_path self" "s3_path self"
      "emit (LogInfo (''copying '' @ path_str (file_path self) @ '' to '' @ s3_path self)) w1"] a
  show "files wx = files w1" by simp
  from s3_put_trace [of ev "file_path self" "s3_path self"
      "emit (LogInfo (''copying '' @ path_str (file_path self) @ '' to '' @ s3_path self)) w1"] a
  show "trace wx = trace w1 @ [LogInfo (''copying '' @ path_str (file_path self)
                                                @ '' to '' @ s3_path self),
                                       EvS3Put (file_path self) (s3_path self)]"
    by (simp add: emit_def)
next
  fix w2
  assume a: "s3_put ev (file_path self) (s3_path self)
                  (emit (LogInfo (''copying '' @ path_str (file_path self) @ '' to ''
                                  @ s3_path self)) w1) = (None, w2)"
  from a assms show eq: "fetch_and_archive_to_s3 cfg ev pl self w = cleanup self w2"
    by (simp add: fetch_and_archive_to_s3_stages put_to_s3_def log_info_def)
  from s3_put_trace [of ev "file_path self" "s3_path self"
      "emit (LogInfo (''copying '' @ path_str (file_path self) @ '' to '' @ s3_path self)) w1"] a
  have "trace w2 = trace w1 @ [LogInfo (''copying '' @ path_str (file_path self)
                                                @ '' to '' @ s3_path self),
                                       EvS3Put (file_path self) (s3_path self)]"
    by (simp add: emit_def)
  with cleanup_trace [of self w2] eq
  show "\<exists>rest. trace (snd (fetch_and_archive_to_s3 cfg ev pl self w))
                    = trace w1 @ LogInfo (''copying '' @ path_str (file_path self)
                                          @ '' to '' @ s3_path self)
                               # EvS3Put (file_path self) (s3_path self)
                               # LogInfo (''deleting '' @ path_str (file_path self))
                               # EvUnlink (file_path self) # rest"
    by auto
qed

lemmas stage_defs = staging_stage_def with_fetch_def write_bytes_def working_plugin_def
  example_processor_simps fs_defs empty_world_def path_str_def

lemma staged_example:
  "staging_stage example_env working_plugin example_processor empty_world
     = (None, staged_world\<lparr>trace :=
          [EvMkdir (local_folder example_processor),
           LogInfo ''writing locally to /data/etl/hitwise/20230501/competitor_rankings_weekly.xls'',
           EvOpen (file_path example_processor)]\<rparr>)"
  by (simp add: stage_defs staged_world_def example_filename_def)

lemma fetched_example:
  "fetch_and_archive_to_s3 example_cfg example_env working_plugin example_processor empty_world
     = (None,
        \<lparr>files = [([''/'', ''data''], Dir), ([''/'', ''data'', ''etl''], Dir),
                  ([''/'', ''data'', ''etl'', ''hitwise''], Dir)],
         s3 = [(''archive-bucket/hitwise/20230501/competitor_rankings_weekly.xls'', ''ABC'')],
         s3_fault = None, db_ddl = [], db_pending = [], db_committed = [],
         trace =
           [EvMkdir (local_folder example_processor),
            LogInfo ''writing locally to /data/etl/hitwise/20230501/competitor_rankings_weekly.xls'',
            EvOpen (file_path example_processor),
            LogInfo (''copying /data/etl/hitwise/20230501/competitor_rankings_weekly.xls to ''
                     @ ''archive-bucket/hitwise/20230501/competitor_rankings_weekly.xls''),
            EvS3Put (file_path example_processor) (s3_path example_processor),
            LogInfo ''deleting /data/etl/hitwise/20230501/competitor_rankings_weekly.xls'',
            EvUnlink (file_path example_processor),
            LogInfo ''Attempting removal of directory /data/etl/hitwise/20230501'',
            EvRmdir (local_folder example_processor)]\<rparr>)"
proof -
  have flag: "FETCH_DATA_FROM_SOURCE example_cfg"
    by (simp add: example_cfg_def)
  show ?thesis
    unfolding fetch_and_archive_to_s3_stages [OF flag] run_all.simps staged_example
    by (simp add: put_to_s3_def s3_put_def cleanup_def rmdir_if_empty_def staged_world_def
          example_filename_def example_processor_simps fs_defs empty_world_def path_str_def
          example_env_def)
qed

lemma fetched_crowded:
  "fst (fetch_and_archive_to_s3 example_cfg example_env working_plugin example_processor
          crowded_world) = None
   \<and> files (snd (fetch_and_archive_to_s3 example_cfg example_env working_plugin
                    example_processor crowded_world)) = files crowded_world"
  by (simp add: fetch_and_archive_to_s3_def example_cfg_def stage_defs put_to_s3_def
        s3_put_def cleanup_def rmdir_if_empty_def crowded_world_def)


lemma ancestors_snoc: "d \<noteq> [] \<Longrightarrow> ancestors (d @ [n]) = ancestors d @ [d]"
proof -
  assume "d \<noteq> []"
  then have len: "1 \<le> length d" by (cases d) auto
  have "map (\<lambda>k. take k (d @ [n])) [1..<length d] = map (\<lambda>k. take k d) [1..<length d]"
    by (rule map_cong) auto
  with len show ?thesis
    by (simp add: ancestors_def)
qed

lemma ancestors_shorter: "q \<in> set (ancestors p) \<Longrightarrow> length q < length p"
  by (auto simp: ancestors_def)

lemma check_dirs_None: "check_dirs t qs = None \<longleftrightarrow> (\<forall>q \<in> set qs. is_dir t q)"
  by (induction qs) auto


lemma is_dir_update_Dir: "is_dir t x \<Longrightarrow> is_dir (AList.update k Dir t) x"
  by (auto simp: is_dir_def update_conv')

lemma is_dir_update_same_Dir: "is_dir (AList.update k Dir t) k"
  by (auto simp: is_dir_def update_conv')

lemma is_file_update_Dir: "is_file (AList.update k Dir t) x \<Longrightarrow> is_file t x"
  by (auto simp: is_file_def is_dir_def update_conv' split: if_splits option.splits node.splits)

lemma mkdir_chain_ok:
  "\<forall>q \<in> set qs. \<not> is_file t q \<Longrightarrow> \<not> is_file t p \<Longrightarrow> \<exists>t'. mkdir_chain t qs p = Inr t'"
proof (induction qs arbitrary: t)
  case Nil
  then show ?case by simp
next
  case (Cons q qs)
  show ?case
  proof (cases "is_dir t q")
    case True
    with Cons show ?thesis by simp
  next
    case False
    from Cons.prems have "\<forall>x \<in> set qs. \<not> is_file (AList.update q Dir t) x"
      and "\<not> is_file (AList.update q Dir t) p"
      by (auto dest: is_file_update_Dir)
    from Cons.IH [OF this] False Cons.prems show ?thesis by simp
  qed
qed

lemma keys_update: "set (map fst (AList.update k v t)) = insert k (set (map fst t))"
  by (auto simp: update_keys)

lemma mkdir_chain_result:
  "mkdir_chain t qs p = Inr t' \<Longrightarrow>
     (\<forall>q \<in> set qs \<union> {p}. is_dir t' q)
     \<and> (\<forall>x. is_dir t x \<longrightarrow> is_dir t' x)
     \<and> (\<forall>x. x \<notin> set qs \<union> {p} \<longrightarrow> map_of t' x = map_of t x)
     \<and> set (map fst t) \<subseteq> set (map fst t')
     \<and> set (map fst t') \<subseteq> set (map fst t) \<union> set qs \<union> {p}"
proof (induction qs arbitrary: t)
  case Nil
  then show ?case
    by (auto simp: is_dir_update_Dir is_dir_update_same_Dir update_conv' keys_update
          simp del: set_map split: if_splits)
next
  case (Cons q qs)
  show ?case
  proof (cases "is_dir t q")
    case True
    with Cons.prems have "mkdir_chain t qs p = Inr t'" by simp
    from Cons.IH [OF this] True show ?thesis by (auto simp del: set_map)
  next
    case False
    with Cons.prems have r: "mkdir_chain (AList.update q Dir t) qs p = Inr t'"
      by (simp split: if_splits)
    have "is_dir (AList.update q Dir t) q" by (rule is_dir_update_same_Dir)
    with Cons.IH [OF r] show ?thesis
      by (auto simp: is_dir_update_Dir update_conv' keys_update simp del: set_map)
  qed
qed










lemma staging_ready:
  assumes fp: "file_path self = local_folder self @ [n]"
      and len: "2 \<le> length (local_folder self)"
      and free: "\<forall>q \<in> set (ancestors (file_path self)). \<not> is_file (files w) q"
      and nodir: "\<not> is_dir (files w) (file_path self)"
  shows "\<exists>t1. mkdir_parents (files w) (local_folder self) = Inr t1
           \<and> open_write t1 (file_path self) = Inr (AList.update (file_path self) (File []) t1)"
proof -
  let ?d = "local_folder self" and ?u = "file_path self"
  from len have dne: "?d \<noteq> []" by auto
  from fp dne have anc: "ancestors ?u = ancestors ?d @ [?d]"
    by (simp add: ancestors_snoc)
  from free anc have "\<forall>q \<in> set (ancestors ?d). \<not> is_file (files w) q"
    and "\<not> is_file (files w) ?d" by auto
  from mkdir_chain_ok [OF this] obtain t1 where t1: "mkdir_chain (files w) (ancestors ?d) ?d = Inr t1"
    by blast
  note res = mkdir_chain_result [OF t1]
  have u_notin: "?u \<notin> set (ancestors ?d) \<union> {?d}"
    using fp ancestors_shorter [of ?u ?d] by auto
  have u_plain: "?u \<noteq> []" "\<not> (is_absolute ?u \<and> length ?u = 1)"
    using fp len by auto
  from res anc have walk: "check_dirs t1 (ancestors ?u) = None"
    by (simp add: check_dirs_None)
  from res u_notin have "map_of t1 ?u = map_of (files w) ?u" by blast
  with nodir u_plain have "\<not> is_dir t1 ?u"
    by (simp add: is_dir_def)
  with walk have "open_write t1 ?u = Inr (AList.update ?u (File []) t1)"
    by (simp add: open_write_def)
  with t1 show ?thesis by (simp add: mkdir_parents_def)
qed

text \<open>
  What the staging statements write for each declared return type, when the
  value fetched has the matching shape: the rows through the \<open>csv\<close> writer for
  \<open>generator\<close>, the text for \<open>list\<close>, the bytes unchanged for any other
  declaration.
\<close>

lemma staging_writes_encoding:
  assumes fp: "file_path self = local_folder self @ [n]"
      and len: "2 \<le> length (local_folder self)"
      and free: "\<forall>q \<in> set (ancestors (file_path self)). \<not> is_file (files w) q"
      and nodir: "\<not> is_dir (files w) (file_path self)"
      and fetch: "fetch_from_api pl self = (\<lambda>w. (Inr v, w))"
  shows "(api_return_type self = ''generator'' \<and> v = PRows rs \<longrightarrow>
            map_of (files (snd (staging_stage ev pl self w))) (file_path self)
              = Some (File (encode_text ev (csv_writerows ev rs))))
       \<and> (api_return_type self = ''list'' \<and> v = PText t \<longrightarrow>
            map_of (files (snd (staging_stage ev pl self w))) (file_path self)
              = Some (File (encode_text ev t)))
       \<and> (api_return_type self \<noteq> ''generator'' \<and> api_return_type self \<noteq> ''list''
            \<and> v = PBytes b \<longrightarrow>
            map_of (files (snd (staging_stage ev pl self w))) (file_path self)
              = Some (File b))"
proof -
  from staging_ready [OF fp len free nodir] obtain t1
    where "mkdir_parents (files w) (local_folder self) = Inr t1"
      and "open_write t1 (file_path self) = Inr (AList.update (file_path self) (File []) t1)"
    by blast
  with fetch show ?thesis
    by (simp add: staging_stage_def do_mkdir_def do_open_def fs_action_def log_info_def emit_def
          with_fetch_def write_rows_def write_text_def write_bytes_def do_write_def
          write_file_def update_conv')
qed






text \<open>
  The same run with an archive client that places the file under the target, as
  s3fs on a current fsspec does for a source that is not a string: nothing is
  stored at \<open>s3_path\<close>, the object is one level below.
\<close>

lemma hitwise_fetch_nested_key:
  "fst (fetch_and_archive_to_s3 example_cfg nesting_env working_plugin
          (hitwise_processor example_cfg) empty_world) = None
   \<and> map_of (s3 (snd (fetch_and_archive_to_s3 example_cfg nesting_env working_plugin
                          (hitwise_processor example_cfg) empty_world)))
         ''archive-bucket/hitwise/20230501/competitor_rankings_weekly.xls'' = None
   \<and> map_of (s3 (snd (fetch_and_archive_to_s3 example_cfg nesting_env working_plugin
                          (hitwise_processor example_cfg) empty_world)))
         (''archive-bucket/hitwise/20230501/competitor_rankings_weekly.xls''
          @ ''/competitor_rankings_weekly.xls'') = Some ''ABC''"
proof -
  have same: "hitwise_processor example_cfg = example_processor"
    by (simp add: hitwise_processor_def example_processor_def)
  have flag: "FETCH_DATA_FROM_SOURCE example_cfg"
    by (simp add: example_cfg_def)
  have staged: "staging_stage nesting_env working_plugin example_processor empty_world
     = (None, staged_world\<lparr>trace :=
          [EvMkdir (local_folder example_processor),
           LogInfo ''writing locally to /data/etl/hitwise/20230501/competitor_rankings_weekly.xls'',
           EvOpen (file_path example_processor)]\<rparr>)"
    by (simp add: stage_defs staged_world_def example_filename_def)
  have "s3 (snd (fetch_and_archive_to_s3 example_cfg nesting_env working_plugin
                   example_processor empty_world))
      = [(''archive-bucket/hitwise/20230501/competitor_rankings_weekly.xls''
          @ ''/competitor_rankings_weekly.xls'', ''ABC'')]"
    and "fst (fetch_and_archive_to_s3 example_cfg nesting_env working_plugin
                   example_processor empty_world) = None"
    unfolding fetch_and_archive_to_s3_stages [OF flag] run_all.simps staged
    by (simp_all add: put_to_s3_def s3_put_def cleanup_def rmdir_if_empty_def staged_world_def
          example_filename_def example_processor_simps fs_defs empty_world_def path_str_def
          nesting_env_def example_env_def)
  then show ?thesis
    by (simp add: same)
qed




theorem upload_before_cleanup_witness:
  "FETCH_DATA_FROM_SOURCE example_cfg
   \<and> fst (staging_stage example_env working_plugin example_processor offline_world) = None
   \<and> fst (fetch_and_archive_to_s3 example_cfg example_env working_plugin example_processor
            offline_world) = Some (PluginError ''archive unreachable'')
   \<and> map_of (files (snd (fetch_and_archive_to_s3 example_cfg example_env working_plugin
                             example_processor offline_world)))
         (file_path example_processor) = Some (File ''ABC'')
   \<and> fst (staging_stage example_env working_plugin example_processor empty_world) = None
   \<and> fetch_and_archive_to_s3 example_cfg example_env working_plugin example_processor
        empty_world
       = cleanup example_processor
           (snd (s3_put example_env (file_path example_processor) (s3_path example_processor)
              (emit (LogInfo (''copying '' @ path_str (file_path example_processor) @ '' to ''
                              @ s3_path example_processor))
                 (snd (staging_stage example_env working_plugin example_processor
                         empty_world)))))"
proof -
  let ?msg = "LogInfo (''copying '' @ path_str (file_path example_processor) @ '' to ''
                       @ s3_path example_processor)"
  let ?w1 = "snd (staging_stage example_env working_plugin example_processor offline_world)"
  let ?v1 = "snd (staging_stage example_env working_plugin example_processor empty_world)"
  have flag: "FETCH_DATA_FROM_SOURCE example_cfg"
    by (simp add: example_cfg_def)
  have off: "staging_stage example_env working_plugin example_processor offline_world
      = (None, staged_world\<lparr>s3_fault := Some (PluginError ''archive unreachable''), trace :=
          [EvMkdir (local_folder example_processor),
           LogInfo ''writing locally to /data/etl/hitwise/20230501/competitor_rankings_weekly.xls'',
           EvOpen (file_path example_processor)]\<rparr>)"
    by (simp add: stage_defs staged_world_def example_filename_def offline_world_def)
  have st1: "staging_stage example_env working_plugin example_processor offline_world
      = (None, ?w1)"
    by (simp add: off)
  have put1: "s3_put example_env (file_path example_processor) (s3_path example_processor) (emit ?msg ?w1)
      = (Some (PluginError ''archive unreachable''),
         emit (EvS3Put (file_path example_processor) (s3_path example_processor))
           (emit ?msg ?w1))"
    by (simp add: off s3_put_def emit_def staged_world_def empty_world_def)
  have st2: "staging_stage example_env working_plugin example_processor empty_world
      = (None, ?v1)"
    by (simp add: staged_example)
  have "fst (s3_put example_env (file_path example_processor) (s3_path example_processor)
               (emit ?msg ?v1)) = None"
    unfolding staged_example
    by (simp add: s3_put_def emit_def staged_world_def empty_world_def
          example_processor_simps example_filename_def fs_defs)
  then have put2: "s3_put example_env (file_path example_processor) (s3_path example_processor)
                     (emit ?msg ?v1)
      = (None, snd (s3_put example_env (file_path example_processor) (s3_path example_processor)
                      (emit ?msg ?v1)))"
    by (simp add: prod_eq_iff)
  from upload_before_cleanup [OF flag st1] put1
  have r1: "fetch_and_archive_to_s3 example_cfg example_env working_plugin example_processor
              offline_world
      = (Some (PluginError ''archive unreachable''),
         emit (EvS3Put (file_path example_processor) (s3_path example_processor))
           (emit ?msg ?w1))"
    by blast
  from upload_before_cleanup [OF flag st2] put2
  have r2: "fetch_and_archive_to_s3 example_cfg example_env working_plugin example_processor
              empty_world
      = cleanup example_processor
          (snd (s3_put example_env (file_path example_processor) (s3_path example_processor)
                  (emit ?msg ?v1)))"
    by blast
  have f1: "map_of (files ?w1) (file_path example_processor) = Some (File ''ABC'')"
    by (simp add: off staged_world_def empty_world_def example_processor_simps
          example_filename_def)
  have g1: "fst (staging_stage example_env working_plugin example_processor offline_world)
      = None"
    by (simp add: off)
  have g2: "fst (staging_stage example_env working_plugin example_processor empty_world) = None"
    by (simp add: staged_example)
  have g3: "fst (fetch_and_archive_to_s3 example_cfg example_env working_plugin
                   example_processor offline_world) = Some (PluginError ''archive unreachable'')"
    by (simp add: r1)
  have g4: "map_of (files (snd (fetch_and_archive_to_s3 example_cfg example_env working_plugin
                             example_processor offline_world)))
         (file_path example_processor) = Some (File ''ABC'')"
    using f1 by (simp add: r1)
  from flag g1 g2 g3 g4 r2 show ?thesis
    by blast
qed

subsection \<open>Command line\<close>

lemma parse_optional_exact [simp]:
  "parse_optional ''--fetch'' = Inr (Some (Some OptFetch, ''--fetch'', None, None))"
  "parse_optional ''--load'' = Inr (Some (Some OptLoad, ''--load'', None, None))"
  "parse_optional ''--rundate'' = Inr (Some (Some OptRundate, ''--rundate'', None, None))"
  by (simp_all add: parse_optional_def option_strings_def)

lemma parse_optional_exit: "parse_optional s = Inl e \<Longrightarrow> e = SystemExit 2"
  by (simp add: parse_optional_def split: if_splits option.splits prod.splits list.splits)

lemma classify_exit: "classify ss = Inl e \<Longrightarrow> e = SystemExit 2"
proof (induction ss arbitrary: e)
  case Nil
  then show ?case by (simp add: classify.simps)
next
  case (Cons s ss)
  show ?case
  proof (cases "parse_optional s")
    case (Inl x)
    with Cons.prems parse_optional_exit [of s x] show ?thesis
      by (simp add: classify.simps split: if_splits)
  next
    case (Inr tup)
    with Cons show ?thesis
      by (cases "classify ss") (simp_all add: classify.simps split: if_splits)
  qed
qed

lemma classify_length: "classify ss = Inr cs \<Longrightarrow> length cs = length ss"
proof (induction ss arbitrary: cs)
  case Nil
  then show ?case by (simp add: classify.simps)
next
  case (Cons s ss)
  show ?case
  proof (cases "s = ''--''")
    case True
    with Cons.prems show ?thesis by (auto simp: classify.simps)
  next
    case False
    with Cons show ?thesis
      by (cases "parse_optional s"; cases "classify ss") (auto simp: classify.simps)
  qed
qed

lemma classify_known:
  "classify (''--fetch'' # ss)
     = (case classify ss of Inl e \<Rightarrow> Inl e
        | Inr cs \<Rightarrow> Inr (ArgO (Some OptFetch, ''--fetch'', None, None) # cs))"
  "classify (''--load'' # ss)
     = (case classify ss of Inl e \<Rightarrow> Inl e
        | Inr cs \<Rightarrow> Inr (ArgO (Some OptLoad, ''--load'', None, None) # cs))"
  "classify (''--rundate'' # ss)
     = (case classify ss of Inl e \<Rightarrow> Inl e
        | Inr cs \<Rightarrow> Inr (ArgO (Some OptRundate, ''--rundate'', None, None) # cs))"
  by (simp_all add: classify.simps split: sum.splits)

lemma store_run_date_bad: "strptime_ymd v = None \<Longrightarrow> store_run_date v st = Inl (SystemExit 2)"
  by (simp add: store_run_date_def iso_date_def)

lemma consume_fetch:
  "consume ff st ((s, ArgO (Some OptFetch, os, None, None)) # rest)
     = consume ff (st\<lparr>seen_fetch := True\<rparr>) rest"
  by (simp add: consume_optional.simps takes_value_def take_action_def)

lemma consume_load:
  "consume ff st ((s, ArgO (Some OptLoad, os, None, None)) # rest)
     = consume ff (st\<lparr>seen_load := True\<rparr>) rest"
  by (simp add: consume_optional.simps takes_value_def take_action_def)

lemma consume_rundate_bad:
  "strptime_ymd v = None \<Longrightarrow>
     consume ff st ((s, ArgO (Some OptRundate, os, None, None)) # (v, c) # rest)
       = Inl (SystemExit 2)"
  by (cases c)
     (simp_all add: consume_optional.simps takes_value_def take_action_def store_run_date_bad)

text \<open>A value after \<open>--rundate\<close> that \<open>strptime\<close> rejects ends the parse with
  status 2, in the first pass or in the loop.\<close>

lemma classify_bad_rundate:
  assumes "strptime_ymd v = None" and "\<forall>t \<in> set pre. t = ''--fetch'' \<or> t = ''--load''"
  shows "case classify (pre @ ''--rundate'' # v # rest) of
           Inl e \<Rightarrow> e = SystemExit 2
         | Inr cs \<Rightarrow> consume ff st (zip (pre @ ''--rundate'' # v # rest) cs) = Inl (SystemExit 2)"
  using assms(2)
proof (induction pre arbitrary: st)
  case Nil
  show ?case
  proof (cases "classify (v # rest)")
    case (Inl e)
    with classify_exit [of "v # rest" e] show ?thesis
      by (simp add: classify_known)
  next
    case (Inr cs)
    with classify_length [of "v # rest" cs] obtain c cs' where cs: "cs = c # cs'"
      by (cases cs) simp_all
    from Inr cs have "classify (''--rundate'' # v # rest)
        = Inr (ArgO (Some OptRundate, ''--rundate'', None, None) # c # cs')"
      by (simp add: classify_known)
    with assms(1) show ?thesis
      by (simp add: consume_rundate_bad del: consume.simps)
  qed
next
  case (Cons t pre)
  then have t: "t = ''--fetch'' \<or> t = ''--load''"
    and rest: "\<forall>t \<in> set pre. t = ''--fetch'' \<or> t = ''--load''"
    by simp_all
  show ?case
  proof (cases "classify (pre @ ''--rundate'' # v # rest)")
    case (Inl e)
    with Cons.IH [OF rest, of st] t show ?thesis
      by (auto simp: classify_known)
  next
    case (Inr cs)
    from t show ?thesis
    proof
      assume "t = ''--fetch''"
      with Cons.IH [OF rest, of "st\<lparr>seen_fetch := True\<rparr>"] Inr show ?thesis
        by (simp add: classify_known consume_fetch del: consume.simps)
    next
      assume "t = ''--load''"
      with Cons.IH [OF rest, of "st\<lparr>seen_load := True\<rparr>"] Inr show ?thesis
        by (simp add: classify_known consume_load del: consume.simps)
    qed
  qed
qed

lemma parse_args_bad_rundate:
  assumes "strptime_ymd v = None" and "\<forall>t \<in> set pre. t = ''--fetch'' \<or> t = ''--load''"
  shows "parse_args ff (pre @ ''--rundate'' # v # rest) = Inl (SystemExit 2)"
proof (cases "classify (pre @ ''--rundate'' # v # rest)")
  case (Inl e)
  with classify_bad_rundate [OF assms, where rest = rest] show ?thesis
    by (simp add: parse_args_def)
next
  case (Inr cs)
  with classify_bad_rundate [OF assms, where rest = rest and ff = ff] show ?thesis
    by (simp add: parse_args_def)
qed

lemma parse_arguments_out: "set (snd (parse_arguments argv ff sys_argv)) \<subseteq> range (ParserExit argv)"
  by (auto simp: parse_arguments_def split: sum.splits)

text \<open>
  C10.  The result of \<open>parse_arguments\<close>, a namespace or an exception, does not
  depend on its parameter \<open>argv\<close>: for the same \<open>fileformats\<close> and the same
  argument vector of the process, any two \<open>argv\<close> give the same result.
\<close>

theorem parse_arguments_ignores_argv:
  "fst (parse_arguments argv fileformats sys_argv) = fst (parse_arguments argv' fileformats sys_argv)"
  by (simp add: parse_arguments_def split: sum.splits)

text \<open>
  C9.  \<open>iso_date\<close> raises \<open>ArgumentTypeError\<close> for a string that
  \<open>strptime\<close> does not parse with \<open>%Y-%m-%d\<close>; such a value after \<open>--rundate\<close>
  makes the parser exit; a command line with neither \<open>--fetch\<close> nor \<open>--load\<close>
  makes \<open>parse_arguments\<close> raise \<open>ArgumentTypeError\<close>.  Whenever
  \<open>parse_arguments\<close> raises, \<open>main\<close> ends with that exception in the world it
  started in, to which only the set-up of logging and the message of the parser
  were added: no processor was constructed, and file system, archive and database
  were not touched.
\<close>

theorem usage_errors_before_construction:
  "(strptime_ymd v = None \<longrightarrow>
      iso_date v = Inl (ArgumentTypeError (v @ '' is not a valid date in YYYY-MM-DD format'')))
   \<and> (strptime_ymd v = None \<and> (\<forall>t \<in> set pre. t = ''--fetch'' \<or> t = ''--load'') \<longrightarrow>
        fst (parse_arguments argv ff (prog # pre @ ''--rundate'' # v # rest))
          = Inl (SystemExit 2))
   \<and> (parse_args ff (tl sys_argv) = Inr args \<and> \<not> arg_fetch args \<and> \<not> arg_load args \<longrightarrow>
        fst (parse_arguments argv ff sys_argv)
          = Inl (ArgumentTypeError ''You must specify either --fetch, --load or both''))
   \<and> (fst (parse_arguments argv (map fst (file_formats klass)) sys_argv) = Inl e \<longrightarrow>
        main cfg ev klass argv sys_argv w
          = (Some e, w\<lparr>trace := trace w @ LoggingConfigured
                 # snd (parse_arguments argv (map fst (file_formats klass)) sys_argv)\<rparr>)
        \<and> S3Client \<notin> set (LoggingConfigured
                 # snd (parse_arguments argv (map fst (file_formats klass)) sys_argv)))"
proof (intro conjI impI)
  assume "strptime_ymd v = None"
  then show "iso_date v = Inl (ArgumentTypeError (v @ '' is not a valid date in YYYY-MM-DD format''))"
    by (simp add: iso_date_def)
next
  assume "strptime_ymd v = None \<and> (\<forall>t \<in> set pre. t = ''--fetch'' \<or> t = ''--load'')"
  then have "parse_args ff (pre @ ''--rundate'' # v # rest) = Inl (SystemExit 2)"
    by (simp add: parse_args_bad_rundate)
  then show "fst (parse_arguments argv ff (prog # pre @ ''--rundate'' # v # rest))
          = Inl (SystemExit 2)"
    by (simp add: parse_arguments_def)
next
  assume "parse_args ff (tl sys_argv) = Inr args \<and> \<not> arg_fetch args \<and> \<not> arg_load args"
  then show "fst (parse_arguments argv ff sys_argv)
          = Inl (ArgumentTypeError ''You must specify either --fetch, --load or both'')"
    by (simp add: parse_arguments_def)
next
  assume a: "fst (parse_arguments argv (map fst (file_formats klass)) sys_argv) = Inl e"
  then show "main cfg ev klass argv sys_argv w
          = (Some e, w\<lparr>trace := trace w @ LoggingConfigured
                 # snd (parse_arguments argv (map fst (file_formats klass)) sys_argv)\<rparr>)"
    by (cases "parse_arguments argv (map fst (file_formats klass)) sys_argv")
       (simp add: main_def emit_def Let_def)
  from parse_arguments_out [of argv "map fst (file_formats klass)" sys_argv]
  show "S3Client \<notin> set (LoggingConfigured
                 # snd (parse_arguments argv (map fst (file_formats klass)) sys_argv))"
    by auto
qed


lemmas parse_defs = parse_arguments_def parse_args_def classify.simps parse_optional_def
  option_strings_def get_option_tuples_def negative_number_def
  consume_optional.simps takes_value_def take_action_def store_run_date_def
  store_fileformat_def iso_date_def
  strptime_ymd_def is_digit_def is_nonzero_digit_def digit_val_def days_in_month_def
  is_leap_def file_formats_def

text \<open>
  The parser at some command lines: a \<open>--\<close> is an unrecognised argument; the help
  option exits with status 0 also after an unrecognised argument, for these are
  reported at the end; an ambiguous abbreviation is reported before any action;
  unique abbreviations and values attached with \<open>=\<close> are accepted.
\<close>

lemma parser_examples:
  "parse_args ff [''--rundate'', ''2023-05-01'', ''--fetch'', ''--''] = Inl (SystemExit 2)"
  "parse_args ff [''--rundate'', ''2023-05-01'', ''--fetch'', ''x''] = Inl (SystemExit 2)"
  "parse_args ff [''--rundate'', ''2023-05-01'', ''--fetch'', ''x'', ''-h''] = Inl (SystemExit 0)"
  "parse_args ff [''--rundate'', ''2023-05-01'', ''--fetch'', ''--zzz'', ''-h'']
     = Inl (SystemExit 0)"
  "parse_args ff [''-h'', ''--f''] = Inl (SystemExit 2)"
  "parse_args ff [''--run=2023-5-1'', ''--lo'']
     = Inr \<lparr> arg_run_date = \<lparr> year = 2023, month = 5, day = 1 \<rparr>, arg_fetch = False,
             arg_load = True, arg_fileformat = None \<rparr>"
  by (simp_all add: parse_defs)

text \<open>An \<open>argv\<close> that asks for a load of another date, under a process that asks
  for a fetch: the result is the fetch.\<close>

lemma argv_ignored_example:
  "fst (parse_arguments [''hitwise.py'', ''--rundate'', ''2020-01-01'', ''--load'']
          [''competitor_rankings'']
          [''hitwise.py'', ''--rundate'', ''2023-05-01'', ''--fetch''])
     = Inr \<lparr> arg_run_date = \<lparr> year = 2023, month = 5, day = 1 \<rparr>, arg_fetch = True,
             arg_load = False, arg_fileformat = None \<rparr>"
  by (simp add: parse_defs)

theorem usage_errors_before_construction_witness:
  "strptime_ymd ''2023/05/01'' = None
   \<and> iso_date ''2023/05/01''
       = Inl (ArgumentTypeError ''2023/05/01 is not a valid date in YYYY-MM-DD format'')
   \<and> fst (parse_arguments [''hitwise.py''] [''competitor_rankings'']
            [''hitwise.py'', ''--fetch'', ''--rundate'', ''2023/05/01''])
       = Inl (SystemExit 2)
   \<and> main example_cfg example_env working_plugin [''hitwise.py'']
        [''hitwise.py'', ''--rundate'', ''2023-05-01'', ''--fileformat'', ''competitor_rankings'']
        empty_world
       = (Some (ArgumentTypeError ''You must specify either --fetch, --load or both''),
          empty_world\<lparr>trace := [LoggingConfigured]\<rparr>)"
proof -
  let ?sys = "[''hitwise.py'', ''--rundate'', ''2023-05-01'', ''--fileformat'',
               ''competitor_rankings'']"
  let ?args = "\<lparr> arg_run_date = \<lparr> year = 2023, month = 5, day = 1 \<rparr>, arg_fetch = False,
                 arg_load = False, arg_fileformat = Some ''competitor_rankings'' \<rparr>"
  have h1: "strptime_ymd ''2023/05/01'' = None"
    by (simp add: strptime_ymd_def is_digit_def)
  have h2: "\<forall>t \<in> set [''--fetch'']. t = ''--fetch'' \<or> t = ''--load''"
    by simp
  have h3: "parse_args [''competitor_rankings''] (tl ?sys) = Inr ?args
            \<and> \<not> arg_fetch ?args \<and> \<not> arg_load ?args"
    by (simp add: parse_defs)
  have ff: "map fst (file_formats working_plugin) = [''competitor_rankings'']"
    by (simp add: file_formats_def)
  have out: "snd (parse_arguments [''hitwise.py''] [''competitor_rankings''] ?sys) = []"
    using h3 by (simp add: parse_arguments_def)
  note inst = usage_errors_before_construction [of "''2023/05/01''" "[''--fetch'']"
      "[''hitwise.py'']" "[''competitor_rankings'']" "''hitwise.py''" "[]" ?sys ?args
      working_plugin "ArgumentTypeError ''You must specify either --fetch, --load or both''"
      example_cfg example_env empty_world]
  from inst h1 have c1: "iso_date ''2023/05/01''
       = Inl (ArgumentTypeError ''2023/05/01 is not a valid date in YYYY-MM-DD format'')"
    by simp
  from inst h1 h2 have c2: "fst (parse_arguments [''hitwise.py''] [''competitor_rankings'']
            [''hitwise.py'', ''--fetch'', ''--rundate'', ''2023/05/01''])
       = Inl (SystemExit 2)"
    by simp
  from inst h3 have c3: "fst (parse_arguments [''hitwise.py''] [''competitor_rankings''] ?sys)
      = Inl (ArgumentTypeError ''You must specify either --fetch, --load or both'')"
    by blast
  from inst c3 ff out have c4: "main example_cfg example_env working_plugin [''hitwise.py''] ?sys
        empty_world
       = (Some (ArgumentTypeError ''You must specify either --fetch, --load or both''),
          empty_world\<lparr>trace := [LoggingConfigured]\<rparr>)"
    by (simp add: empty_world_def)
  from h1 c1 c2 c4 show ?thesis
    by blast
qed

end
